theory Spec2Isabelle
  imports Complex_Main "HOL-Library.AList"
begin

section \<open>Python values\<close>

text \<open>
  The client in \<^verbatim>\<open>custom_components/solis/soliscloud_api.py\<close> works on parsed JSON
  (the result of \<^verbatim>\<open>resp.json()\<close>), on dictionaries and on exceptions. A JSON object is
  an association list in insertion order, as a Python dict is; JSON \<^verbatim>\<open>null\<close> is Python's
  \<^verbatim>\<open>None\<close>. A Python \<^verbatim>\<open>str\<close> is a \<open>string\<close>; the texts the client builds
  itself are ASCII, so encoding them as UTF-8 changes nothing.

  A Python float is an IEEE 754 binary64 number. \<open>Fin r\<close> is the finite double of exact
  value \<open>r\<close> (the sign of a zero is not kept: \<^verbatim>\<open>-0.0 == 0.0\<close> in Python), beside the two
  infinities and NaN, which Python's JSON parser accepts.
\<close>

datatype pyfloat = Fin rat | PInf | NInf | NaN

datatype json =
    JNull
  | JBool bool
  | JInt int
  | JFloat pyfloat
  | JStr string
  | JArr "json list"
  | JObj "(string \<times> json) list"

text \<open>The values the normalized record holds: the results of \<^verbatim>\<open>str\<close>, \<^verbatim>\<open>int\<close>
  and \<^verbatim>\<open>float\<close>.\<close>

datatype pyval = VStr string | VInt int | VFloat pyfloat

text \<open>Exceptions. \<open>TimeoutError\<close> is \<^verbatim>\<open>asyncio.TimeoutError\<close>, \<open>ClientError\<close> is
  aiohttp's class with its subclasses; both carry the text \<^verbatim>\<open>str(err)\<close> gives. Every
  other class the session may raise is \<open>OtherError\<close> with its name.\<close>

datatype py_exn =
    KeyError
  | TypeError
  | ValueError
  | AttributeError
  | OverflowError
  | ZeroDivisionError
  | TimeoutError string
  | ClientError string
  | OtherError string

datatype 'a res = Return 'a | Raise py_exn

subsection \<open>Decimal text of integers\<close>

fun str_nat :: "nat \<Rightarrow> string" where
  "str_nat n =
     (if n < 10 then [''0123456789'' ! n]
      else str_nat (n div 10) @ [''0123456789'' ! (n mod 10)])"

declare str_nat.simps [simp del]

definition str_int :: "int \<Rightarrow> string" where
  "str_int i = (if i < 0 then CHR ''-'' # str_nat (nat (- i)) else str_nat (nat i))"

subsection \<open>Floats: rounding to binary64\<close>

text \<open>\<open>rne\<close> rounds a rational to the nearest integer, a tie to the even one.\<close>

definition rne :: "rat \<Rightarrow> int" where
  "rne x =
     (let f = \<lfloor>x\<rfloor>; d = x - of_int f
      in if d < 1 / 2 then f
         else if 1 / 2 < d then f + 1
         else if even f then f else f + 1)"

fun bit_len :: "nat \<Rightarrow> nat" where
  "bit_len n = (if n = 0 then 0 else Suc (bit_len (n div 2)))"

declare bit_len.simps [simp del]

definition pow2 :: "int \<Rightarrow> rat" where
  "pow2 e = (if 0 \<le> e then 2 ^ nat e else 1 / 2 ^ nat (- e))"

definition pow10 :: "int \<Rightarrow> rat" where
  "pow10 e = (if 0 \<le> e then 10 ^ nat e else 1 / 10 ^ nat (- e))"

text \<open>\<open>ilog2 x\<close> is the integer part of the binary logarithm of a positive \<open>x\<close>.\<close>

definition ilog2 :: "rat \<Rightarrow> int" where
  "ilog2 x =
     (if 1 \<le> x then int (bit_len (nat \<lfloor>x\<rfloor>)) - 1
      else - int (bit_len (nat (\<lceil>1 / x\<rceil> - 1))))"

text \<open>The double nearest to an exact value (53 bits of precision, exponents from -1022,
  ties to even), an infinity when the rounded value is out of range.\<close>

definition binary64 :: "rat \<Rightarrow> pyfloat" where
  "binary64 x =
     (if x = 0 then Fin 0
      else
        let e = max (ilog2 \<bar>x\<bar>) (- 1022) - 52;
            y = of_int (rne (x / pow2 e)) * pow2 e
        in if 2 ^ 1024 \<le> y then PInf
           else if y \<le> - (2 ^ 1024) then NInf
           else Fin y)"

text \<open>\<^verbatim>\<open>float(n)\<close> of an int: correctly rounded, \<^verbatim>\<open>OverflowError\<close> when too large.\<close>

definition float_of_int :: "int \<Rightarrow> pyfloat res" where
  "float_of_int n =
     (case binary64 (of_int n) of Fin y \<Rightarrow> Return (Fin y) | _ \<Rightarrow> Raise OverflowError)"

text \<open>\<^verbatim>\<open>a / b\<close> on floats.\<close>

fun py_truediv :: "pyfloat \<Rightarrow> pyfloat \<Rightarrow> pyfloat res" where
  "py_truediv NaN b = (if b = Fin 0 then Raise ZeroDivisionError else Return NaN)"
| "py_truediv a NaN = Return NaN"
| "py_truediv (Fin a) (Fin b) =
     (if b = 0 then Raise ZeroDivisionError else Return (binary64 (a / b)))"
| "py_truediv (Fin a) b = Return (Fin 0)"
| "py_truediv a (Fin b) =
     (if b = 0 then Raise ZeroDivisionError
      else Return (if (a = PInf) = (0 < b) then PInf else NInf))"
| "py_truediv a b = Return NaN"

text \<open>\<^verbatim>\<open>round(x, ndigits)\<close> on a float: the exact value is rounded to \<open>ndigits\<close> decimals,
  a tie to the even digit, and the decimal result is rounded to the nearest double; an
  infinity or a NaN is returned as it is. With \<^verbatim>\<open>ndigits\<close> \<^verbatim>\<open>None\<close> the result is an
  int.\<close>

fun py_round :: "pyfloat \<Rightarrow> int option \<Rightarrow> pyval res" where
  "py_round (Fin x) (Some nd) =
     (case binary64 (of_int (rne (x * pow10 nd)) / pow10 nd) of
        Fin y \<Rightarrow> Return (VFloat (Fin y))
      | _ \<Rightarrow> Raise OverflowError)"
| "py_round f (Some nd) = Return (VFloat f)"
| "py_round (Fin x) None = Return (VInt (rne x))"
| "py_round NaN None = Raise ValueError"
| "py_round f None = Raise OverflowError"

text \<open>Python's \<^verbatim>\<open>==\<close> on floats.\<close>

definition float_eq :: "pyfloat \<Rightarrow> pyfloat \<Rightarrow> bool" where
  "float_eq a b = (a \<noteq> NaN \<and> a = b)"

section \<open>The environment\<close>

text \<open>
  What the client calls and does not define: the digest functions of \<^verbatim>\<open>hashlib\<close> and
  \<^verbatim>\<open>hmac\<close>, \<^verbatim>\<open>json.dumps\<close> with its separators, the text of a float or a container,
  the parsers behind \<^verbatim>\<open>int(str)\<close> and \<^verbatim>\<open>float(str)\<close>, the clock and the HTTP session.
  They are parameters of the model. A session answers a POST with a response or raises;
  reading the response's JSON body is a second step that can raise as well. Its answer may
  depend on everything that happened before.
\<close>

datatype weekday = Mon | Tue | Wed | Thu | Fri | Sat | Sun

datatype month = Jan | Feb | Mar | Apr | May | Jun | Jul | Aug | Sep | Oct | Nov | Dec

record datetime =
  dt_weekday :: weekday
  dt_day :: nat
  dt_month :: month
  dt_year :: nat
  dt_hour :: nat
  dt_minute :: nat
  dt_second :: nat

record request =
  req_url :: string
  req_data :: string
  req_headers :: "(string \<times> string) list"

datatype json_outcome = JsonBody json | JsonRaises py_exn

datatype post_outcome = PostRaises py_exn | Response int json_outcome

text \<open>What the client does to the world, in order: a POST on a session handle, the release
  of a response, the closing of a session handle.\<close>

datatype event = Posted nat request | Released | Closed nat

record env =
  md5 :: "string \<Rightarrow> string"
  hmac_sha1 :: "string \<Rightarrow> string \<Rightarrow> string"
  json_dumps :: "string \<times> string \<Rightarrow> json \<Rightarrow> string"
  py_repr :: "json \<Rightarrow> string"
  int_of_str :: "string \<Rightarrow> int option"
  float_of_str :: "string \<Rightarrow> pyfloat option"
  clock :: "nat \<Rightarrow> datetime"
  session_post :: "event list \<Rightarrow> nat \<Rightarrow> request \<Rightarrow> post_outcome"

section \<open>Coercions and dictionaries\<close>

text \<open>\<^verbatim>\<open>str(x)\<close>, \<^verbatim>\<open>int(x)\<close> and \<^verbatim>\<open>float(x)\<close> of a parsed JSON value.\<close>

fun py_str :: "env \<Rightarrow> json \<Rightarrow> string" where
  "py_str E (JStr s) = s"
| "py_str E (JInt n) = str_int n"
| "py_str E (JBool b) = (if b then ''True'' else ''False'')"
| "py_str E JNull = ''None''"
| "py_str E j = py_repr E j"

definition trunc :: "rat \<Rightarrow> int" where
  "trunc r = (if 0 \<le> r then \<lfloor>r\<rfloor> else \<lceil>r\<rceil>)"

fun py_int :: "env \<Rightarrow> json \<Rightarrow> int res" where
  "py_int E (JInt n) = Return n"
| "py_int E (JBool b) = Return (if b then 1 else 0)"
| "py_int E (JFloat (Fin r)) = Return (trunc r)"
| "py_int E (JFloat NaN) = Raise ValueError"
| "py_int E (JFloat f) = Raise OverflowError"
| "py_int E (JStr s) = (case int_of_str E s of None \<Rightarrow> Raise ValueError | Some n \<Rightarrow> Return n)"
| "py_int E j = Raise TypeError"

fun py_float :: "env \<Rightarrow> json \<Rightarrow> pyfloat res" where
  "py_float E (JFloat f) = Return f"
| "py_float E (JInt n) = float_of_int n"
| "py_float E (JBool b) = Return (Fin (if b then 1 else 0))"
| "py_float E (JStr s) =
     (case float_of_str E s of None \<Rightarrow> Raise ValueError | Some f \<Rightarrow> Return f)"
| "py_float E j = Raise TypeError"

text \<open>\<^verbatim>\<open>float(v)\<close> of a value of the normalized record.\<close>

fun float_of_val :: "env \<Rightarrow> pyval \<Rightarrow> pyfloat res" where
  "float_of_val E (VFloat f) = Return f"
| "float_of_val E (VInt n) = float_of_int n"
| "float_of_val E (VStr s) =
     (case float_of_str E s of None \<Rightarrow> Raise ValueError | Some f \<Rightarrow> Return f)"

text \<open>Python's \<^verbatim>\<open>==\<close> on the record's values: numbers compare by value, a string equals
  only the same string.\<close>

fun py_eq :: "pyval \<Rightarrow> pyval \<Rightarrow> bool" where
  "py_eq (VStr a) (VStr b) = (a = b)"
| "py_eq (VInt a) (VInt b) = (a = b)"
| "py_eq (VInt a) (VFloat b) = float_eq (Fin (of_int a)) b"
| "py_eq (VFloat a) (VInt b) = float_eq a (Fin (of_int b))"
| "py_eq (VFloat a) (VFloat b) = float_eq a b"
| "py_eq a b = False"

text \<open>\<^verbatim>\<open>obj[key]\<close> and \<^verbatim>\<open>obj.get(key)\<close> with a string key, and iteration.\<close>

fun py_getitem :: "json \<Rightarrow> string \<Rightarrow> json res" where
  "py_getitem (JObj kvs) k = (case map_of kvs k of None \<Rightarrow> Raise KeyError | Some v \<Rightarrow> Return v)"
| "py_getitem j k = Raise TypeError"

fun py_get :: "json \<Rightarrow> string \<Rightarrow> json res" where
  "py_get (JObj kvs) k = Return (case map_of kvs k of None \<Rightarrow> JNull | Some v \<Rightarrow> v)"
| "py_get j k = Raise AttributeError"

fun py_iter :: "json \<Rightarrow> json list res" where
  "py_iter (JArr xs) = Return xs"
| "py_iter (JObj kvs) = Return (map (\<lambda>kv. JStr (fst kv)) kvs)"
| "py_iter (JStr s) = Return (map (\<lambda>c. JStr [c]) s)"
| "py_iter j = Raise TypeError"

text \<open>A dict whose keys are parsed JSON values (the inverter directory): lists and dicts
  cannot be keys, and numbers that compare equal are one key.\<close>

fun hashable :: "json \<Rightarrow> bool" where
  "hashable (JArr xs) = False"
| "hashable (JObj kvs) = False"
| "hashable j = True"

fun num_of :: "json \<Rightarrow> pyfloat option" where
  "num_of (JBool b) = Some (Fin (if b then 1 else 0))"
| "num_of (JInt n) = Some (Fin (of_int n))"
| "num_of (JFloat f) = Some f"
| "num_of j = None"

definition key_eq :: "json \<Rightarrow> json \<Rightarrow> bool" where
  "key_eq a b =
     (case (num_of a, num_of b) of
        (Some x, Some y) \<Rightarrow> float_eq x y
      | (None, None) \<Rightarrow> a = b
      | _ \<Rightarrow> False)"

fun dict_find :: "(json \<times> json) list \<Rightarrow> json \<Rightarrow> json option" where
  "dict_find [] k = None"
| "dict_find ((k', v) # d) k = (if key_eq k' k then Some v else dict_find d k)"

fun dict_upd :: "(json \<times> json) list \<Rightarrow> json \<Rightarrow> json \<Rightarrow> (json \<times> json) list" where
  "dict_upd [] k v = [(k, v)]"
| "dict_upd ((k', v') # d) k v =
     (if key_eq k' k then (k', v) # d else (k', v') # dict_upd d k v)"

definition dict_setitem ::
    "(json \<times> json) list \<Rightarrow> json \<Rightarrow> json \<Rightarrow> (json \<times> json) list res" where
  "dict_setitem d k v = (if hashable k then Return (dict_upd d k v) else Raise TypeError)"

section \<open>Request signing\<close>

text \<open>\<^verbatim>\<open>base64.b64encode\<close> on a byte string.\<close>

definition b64_char :: "nat \<Rightarrow> char" where
  "b64_char n =
     ''ABCDEFGHIJKLMNOPQRSTUVWXYZabcdefghijklmnopqrstuvwxyz0123456789+/'' ! (n mod 64)"

fun b64_groups :: "nat list \<Rightarrow> string" where
  "b64_groups [] = []"
| "b64_groups [a] =
     [b64_char (a div 4), b64_char (a mod 4 * 16), CHR ''='', CHR ''='']"
| "b64_groups [a, b] =
     [b64_char (a div 4), b64_char (a mod 4 * 16 + b div 16),
      b64_char (b mod 16 * 4), CHR ''='']"
| "b64_groups (a # b # c # rest) =
     [b64_char (a div 4), b64_char (a mod 4 * 16 + b div 16),
      b64_char (b mod 16 * 4 + c div 64), b64_char (c mod 64)] @ b64_groups rest"

definition b64encode :: "string \<Rightarrow> string" where
  "b64encode bs = b64_groups (map of_char bs)"

text \<open>\<^verbatim>\<open>now.strftime("%a, %d %b %Y %H:%M:%S GMT")\<close>, for a year of four digits.\<close>

fun day_abbr :: "weekday \<Rightarrow> string" where
  "day_abbr Mon = ''Mon''" | "day_abbr Tue = ''Tue''" | "day_abbr Wed = ''Wed''"
| "day_abbr Thu = ''Thu''" | "day_abbr Fri = ''Fri''" | "day_abbr Sat = ''Sat''"
| "day_abbr Sun = ''Sun''"

fun month_abbr :: "month \<Rightarrow> string" where
  "month_abbr Jan = ''Jan''" | "month_abbr Feb = ''Feb''" | "month_abbr Mar = ''Mar''"
| "month_abbr Apr = ''Apr''" | "month_abbr May = ''May''" | "month_abbr Jun = ''Jun''"
| "month_abbr Jul = ''Jul''" | "month_abbr Aug = ''Aug''" | "month_abbr Sep = ''Sep''"
| "month_abbr Oct = ''Oct''" | "month_abbr Nov = ''Nov''" | "month_abbr Dec = ''Dec''"

definition pad2 :: "nat \<Rightarrow> string" where
  "pad2 n = (if n < 10 then CHR ''0'' # str_nat n else str_nat n)"

definition strftime_gmt :: "datetime \<Rightarrow> string" where
  "strftime_gmt t =
     day_abbr (dt_weekday t) @ '', '' @ pad2 (dt_day t) @ '' '' @ month_abbr (dt_month t)
     @ '' '' @ str_nat (dt_year t) @ '' '' @ pad2 (dt_hour t) @ '':'' @ pad2 (dt_minute t)
     @ '':'' @ pad2 (dt_second t) @ '' GMT''"

text \<open>\<^verbatim>\<open>SoliscloudConfig\<close> with the fields of its base class \<^verbatim>\<open>PortalConfig\<close>.\<close>

record config =
  portal_domain :: string
  portal_username :: string
  portal_plantid :: string
  portal_key_id :: string
  portal_secret :: string

text \<open>
  The state: the fields of \<^verbatim>\<open>SoliscloudAPI\<close> (a session handle is a number; \<open>user_id\<close> is
  \<open>JNull\<close> for \<^verbatim>\<open>None\<close>; the inverter directory is \<^verbatim>\<open>None\<close> or a dict), and the world
  the client acts on: the events so far and the number of times the clock was read.
\<close>

record api =
  config :: config
  session :: "nat option"
  user_id :: json
  data :: "(string \<times> pyval) list"
  inverter_list :: "(json \<times> json) list option"
  events :: "event list"
  clock_reads :: nat

definition is_online :: "api \<Rightarrow> bool" where
  "is_online s = (user_id s \<noteq> JNull)"

record result =
  success :: bool
  message :: "string option"
  status_code :: "int option"
  content :: "json option"

definition VERB :: string where
  "VERB = ''POST''"

definition INVERTER_DETAIL :: string where
  "INVERTER_DETAIL = ''/v1/api/inveterDetail''"

definition prepare_header ::
    "env \<Rightarrow> json \<Rightarrow> string \<Rightarrow> api \<Rightarrow> (string \<times> string) list \<times> api" where
  "prepare_header E body canonicalized_resource s =
     (let now = clock E (clock_reads s);
          date = strftime_gmt now;
          content_md5 = b64encode (md5 E (json_dumps E ('','', '':'') body));
          content_type = ''application/json'';
          encrypt_str = VERB @ [CHR 0x0A] @ content_md5 @ [CHR 0x0A] @ content_type
            @ [CHR 0x0A] @ date @ [CHR 0x0A] @ canonicalized_resource;
          sign = b64encode (hmac_sha1 E (portal_secret (config s)) encrypt_str);
          authorization = ''API '' @ portal_key_id (config s) @ '':'' @ sign
      in ([(''Content-MD5'', content_md5),
           (''Content-Type'', content_type),
           (''Date'', date),
           (''Authorization'', authorization)],
          s\<lparr>clock_reads := Suc (clock_reads s)\<rparr>))"

section \<open>The signed POST\<close>

text \<open>The handler \<^verbatim>\<open>except (asyncio.TimeoutError, ClientError) as err\<close>: these two classes
  end in a failure result whose message is \<^verbatim>\<open>"%s" % err\<close>; any other exception goes on to
  the caller.\<close>

fun on_exception :: "py_exn \<Rightarrow> result \<Rightarrow> result res" where
  "on_exception (TimeoutError m) r = Return (r\<lparr>message := Some m\<rparr>)"
| "on_exception (ClientError m) r = Return (r\<lparr>message := Some m\<rparr>)"
| "on_exception e r = Raise e"

text \<open>The header is prepared first, also without a session. With a session the request is
  posted; a response is released on every way out (\<^verbatim>\<open>finally\<close>), and no response exists
  when the POST itself raised.\<close>

definition post_data_json :: "env \<Rightarrow> string \<Rightarrow> json \<Rightarrow> api \<Rightarrow> result res \<times> api" where
  "post_data_json E canonicalized_resource params s0 =
     (case prepare_header E params canonicalized_resource s0 of
        (header, s) \<Rightarrow>
          let result = \<lparr>success = False, message = None, status_code = None, content = None\<rparr>
          in case session s of
               None \<Rightarrow> (Return result, s)
             | Some h \<Rightarrow>
                 let url = ''https://'' @ portal_domain (config s) @ canonicalized_resource;
                     req = \<lparr>req_url = url,
                            req_data = json_dumps E ('','', '':'') params,
                            req_headers = header\<rparr>;
                     s1 = s\<lparr>events := events s @ [Posted h req]\<rparr>
                 in case session_post E (events s) h req of
                      PostRaises e \<Rightarrow> (on_exception e result, s1)
                    | Response status body \<Rightarrow>
                        let result1 = result\<lparr>status_code := Some status\<rparr>;
                            s2 = s1\<lparr>events := events s1 @ [Released]\<rparr>
                        in case body of
                             JsonRaises e \<Rightarrow> (on_exception e result1, s2)
                           | JsonBody j \<Rightarrow>
                               let result2 = result1\<lparr>content := Some j\<rparr>
                               in if status = 200
                                  then (Return (result2\<lparr>success := True, message := Some ''OK''\<rparr>), s2)
                                  else (Return (result2\<lparr>message :=
                                          Some (''Got http statuscode: '' @ str_int status)\<rparr>), s2))"

text \<open>\<^verbatim>\<open>result[CONTENT]\<close>: the key is there once a body was read.\<close>

definition result_content :: "result \<Rightarrow> json res" where
  "result_content r = (case content r of None \<Rightarrow> Raise KeyError | Some j \<Rightarrow> Return j)"

section \<open>Session lifecycle and the inverter directory\<close>

fun collect_records :: "json list \<Rightarrow> (json \<times> json) list \<Rightarrow> (json \<times> json) list res" where
  "collect_records [] device_ids = Return device_ids"
| "collect_records (record # rest) device_ids =
     (case py_get record ''sn'' of
        Raise e \<Rightarrow> Raise e
      | Return serial \<Rightarrow>
          (case py_get record ''id'' of
             Raise e \<Rightarrow> Raise e
           | Return device_id \<Rightarrow>
               (case dict_setitem device_ids serial device_id of
                  Raise e \<Rightarrow> Raise e
                | Return device_ids' \<Rightarrow> collect_records rest device_ids')))"

text \<open>\<^verbatim>\<open>result_json['data']['records']\<close>, iterated.\<close>

definition records_of :: "json \<Rightarrow> json list res" where
  "records_of result_json =
     (case py_getitem result_json ''data'' of
        Raise e \<Rightarrow> Raise e
      | Return d \<Rightarrow>
          (case py_getitem d ''records'' of
             Raise e \<Rightarrow> Raise e
           | Return rs \<Rightarrow> py_iter rs))"

definition fetch_inverter_list ::
    "env \<Rightarrow> string \<Rightarrow> api \<Rightarrow> (json \<times> json) list option res \<times> api" where
  "fetch_inverter_list E plant_id s0 =
     (case post_data_json E ''/v1/api/inveterList'' (JObj [(''stationId'', JStr plant_id)]) s0 of
        (Raise e, s) \<Rightarrow> (Raise e, s)
      | (Return result, s) \<Rightarrow>
          if success result then
            (case result_content result of
               Raise e \<Rightarrow> (Raise e, s)
             | Return result_json \<Rightarrow>
                 (case records_of result_json of
                    Raise e \<Rightarrow> (Raise e, s)
                  | Return rs \<Rightarrow>
                      (case collect_records rs [] of
                         Raise e \<Rightarrow> (Raise e, s)
                       | Return device_ids \<Rightarrow> (Return (Some device_ids), s))))
          else (Return None, s\<lparr>user_id := JNull\<rparr>))"

text \<open>The body of the \<^verbatim>\<open>try\<close> in \<^verbatim>\<open>login\<close>: the user id is stored before the list is
  fetched, and the list only when the fetch returned.\<close>

definition login_try :: "env \<Rightarrow> json \<Rightarrow> api \<Rightarrow> unit res \<times> api" where
  "login_try E result_json s =
     (case py_getitem result_json ''data'' of
        Raise e \<Rightarrow> (Raise e, s)
      | Return d \<Rightarrow>
          (case py_getitem d ''userId'' of
             Raise e \<Rightarrow> (Raise e, s)
           | Return uid \<Rightarrow>
               (case fetch_inverter_list E (portal_plantid (config s)) (s\<lparr>user_id := uid\<rparr>) of
                  (Raise e, s1) \<Rightarrow> (Raise e, s1)
                | (Return l, s1) \<Rightarrow> (Return (), s1\<lparr>inverter_list := l\<rparr>))))"

definition login :: "env \<Rightarrow> nat \<Rightarrow> api \<Rightarrow> bool res \<times> api" where
  "login E sess s0 =
     (let s = s0\<lparr>session := Some sess, inverter_list := None\<rparr>;
          params = JObj [(''userName'', JStr (portal_username (config s))), (''userType'', JInt 0)]
      in case post_data_json E ''/v1/api/addUser'' params s of
           (Raise e, s1) \<Rightarrow> (Raise e, s1)
         | (Return result, s1) \<Rightarrow>
             if success result then
               (case result_content result of
                  Raise e \<Rightarrow> (Raise e, s1)
                | Return result_json \<Rightarrow>
                    (case login_try E result_json s1 of
                       (Raise KeyError, s2) \<Rightarrow>
                         (Return (is_online (s2\<lparr>user_id := JNull\<rparr>)), s2\<lparr>user_id := JNull\<rparr>)
                     | (Raise e, s2) \<Rightarrow> (Raise e, s2)
                     | (Return u, s2) \<Rightarrow> (Return (is_online s2), s2)))
             else (Return (is_online (s1\<lparr>user_id := JNull\<rparr>)), s1\<lparr>user_id := JNull\<rparr>))"

definition logout :: "api \<Rightarrow> unit res \<times> api" where
  "logout s =
     (let s1 = (case session s of
                  None \<Rightarrow> s
                | Some h \<Rightarrow> s\<lparr>events := events s @ [Closed h]\<rparr>)
      in (Return (), s1\<lparr>session := None, user_id := JNull, inverter_list := None\<rparr>))"

section \<open>Inverter detail: the field table and the normalization\<close>

text \<open>
  Modelled from the spec: the canonical field names. The table's keys are the constants of
  \<^verbatim>\<open>ginlong_const\<close>, a module of the repository that is not among the sources; the spec
  calls them canonical field names and gives no values. They are taken as pairwise distinct
  strings, each written as the constant's own name.
\<close>

abbreviation INVERTER_TIMESTAMP_UPDATE :: string where
  "INVERTER_TIMESTAMP_UPDATE \<equiv> ''INVERTER_TIMESTAMP_UPDATE''"

abbreviation PHASE1_VOLTAGE :: string where
  "PHASE1_VOLTAGE \<equiv> ''PHASE1_VOLTAGE''"

abbreviation PHASE2_VOLTAGE :: string where
  "PHASE2_VOLTAGE \<equiv> ''PHASE2_VOLTAGE''"

abbreviation PHASE3_VOLTAGE :: string where
  "PHASE3_VOLTAGE \<equiv> ''PHASE3_VOLTAGE''"

abbreviation PHASE1_CURRENT :: string where
  "PHASE1_CURRENT \<equiv> ''PHASE1_CURRENT''"

abbreviation PHASE2_CURRENT :: string where
  "PHASE2_CURRENT \<equiv> ''PHASE2_CURRENT''"

abbreviation PHASE3_CURRENT :: string where
  "PHASE3_CURRENT \<equiv> ''PHASE3_CURRENT''"

datatype pytype = TStr | TInt | TFloat

text \<open>\<^verbatim>\<open>INVERTER_DATA[INVERTER_DETAIL]\<close>, in the order of the dict literal: the canonical
  field, then the vendor key, the type and the decimal precision.\<close>

definition INVERTER_DATA_DETAIL :: "(string \<times> string \<times> pytype \<times> int option) list" where
  "INVERTER_DATA_DETAIL =
    [(''INVERTER_SERIAL'', ''sn'', TStr, None),
     (''INVERTER_PLANT_ID'', ''stationId'', TStr, None),
     (''INVERTER_DEVICE_ID'', ''id'', TStr, None),
     (''INVERTER_DATALOGGER_SERIAL'', ''collectorId'', TStr, None),
     (INVERTER_TIMESTAMP_UPDATE, ''dataTimestamp'', TInt, None),
     (''INVERTER_STATE'', ''state'', TInt, None),
     (''INVERTER_TEMPERATURE'', ''inverterTemperature'', TFloat, Some 1),
     (''INVERTER_POWER_LIMIT'', ''pacPec'', TFloat, Some 2),
     (''INVERTER_POWER_STATE'', ''currentState'', TInt, None),
     (''INVERTER_ACPOWER'', ''pac'', TFloat, Some 2),
     (''INVERTER_ACFREQUENCY'', ''fac'', TFloat, Some 2),
     (''INVERTER_ENERGY_TODAY'', ''eToday'', TFloat, Some 2),
     (''INVERTER_ENERGY_THIS_MONTH'', ''eMonth'', TFloat, Some 2),
     (''INVERTER_ENERGY_THIS_YEAR'', ''eYear'', TFloat, Some 2),
     (''INVERTER_ENERGY_TOTAL_LIFE'', ''eTotal'', TFloat, Some 2),
     (''STRING1_VOLTAGE'', ''uPv1'', TFloat, Some 2),
     (''STRING2_VOLTAGE'', ''uPv2'', TFloat, Some 2),
     (''STRING3_VOLTAGE'', ''uPv3'', TFloat, Some 2),
     (''STRING4_VOLTAGE'', ''uPv4'', TFloat, Some 2),
     (''STRING1_CURRENT'', ''iPv1'', TFloat, Some 2),
     (''STRING2_CURRENT'', ''iPv2'', TFloat, Some 2),
     (''STRING3_CURRENT'', ''iPv3'', TFloat, Some 2),
     (''STRING4_CURRENT'', ''iPv4'', TFloat, Some 2),
     (''STRING1_POWER'', ''pow1'', TFloat, Some 2),
     (''STRING2_POWER'', ''pow2'', TFloat, Some 2),
     (''STRING3_POWER'', ''pow3'', TFloat, Some 2),
     (''STRING4_POWER'', ''pow4'', TFloat, Some 2),
     (PHASE1_VOLTAGE, ''uAc1'', TFloat, Some 2),
     (PHASE2_VOLTAGE, ''uAc2'', TFloat, Some 2),
     (PHASE3_VOLTAGE, ''uAc3'', TFloat, Some 2),
     (PHASE1_CURRENT, ''iAc1'', TFloat, Some 2),
     (PHASE2_CURRENT, ''iAc2'', TFloat, Some 2),
     (PHASE3_CURRENT, ''iAc3'', TFloat, Some 2),
     (''BAT_REMAINING_CAPACITY'', ''batteryCapacitySoc'', TFloat, Some 2),
     (''BAT_TOTAL_ENERGY_CHARGED'', ''batteryTotalChargeEnergy'', TFloat, Some 2),
     (''BAT_TOTAL_ENERGY_DISCHARGED'', ''batteryTotalDischargeEnergy'', TFloat, Some 2),
     (''BAT_DAILY_ENERGY_CHARGED'', ''batteryTodayChargeEnergy'', TFloat, Some 2),
     (''BAT_DAILY_ENERGY_DISCHARGED'', ''batteryTodayDischargeEnergy'', TFloat, Some 2),
     (''GRID_DAILY_ON_GRID_ENERGY'', ''gridSellTodayEnergy'', TFloat, Some 2),
     (''GRID_DAILY_ENERGY_PURCHASED'', ''gridPurchasedTodayEnergy'', TFloat, Some 2),
     (''GRID_DAILY_ENERGY_USED'', ''homeLoadTodayEnergy'', TFloat, Some 2),
     (''GRID_MONTHLY_ENERGY_PURCHASED'', ''gridPurchasedMonthEnergy'', TFloat, Some 2),
     (''GRID_YEARLY_ENERGY_PURCHASED'', ''gridPurchasedYearEnergy'', TFloat, Some 2),
     (''GRID_TOTAL_ON_GRID_ENERGY'', ''gridSellTotalEnergy'', TFloat, Some 2),
     (''GRID_TOTAL_POWER'', ''pSum'', TFloat, Some 2),
     (''GRID_TOTAL_CONSUMPTION_POWER'', ''familyLoadPower'', TFloat, Some 2),
     (''GRID_TOTAL_ENERGY_USED'', ''homeLoadTotalEnergy'', TFloat, Some 2)]"

text \<open>\<^verbatim>\<open>type_(data_raw)\<close>, rounded when the type is \<^verbatim>\<open>float\<close>.\<close>

fun coerce :: "env \<Rightarrow> pytype \<Rightarrow> int option \<Rightarrow> json \<Rightarrow> pyval res" where
  "coerce E TStr precision data_raw = Return (VStr (py_str E data_raw))"
| "coerce E TInt precision data_raw =
     (case py_int E data_raw of Raise e \<Rightarrow> Raise e | Return n \<Rightarrow> Return (VInt n))"
| "coerce E TFloat precision data_raw =
     (case py_float E data_raw of Raise e \<Rightarrow> Raise e | Return f \<Rightarrow> py_round f precision)"

definition get_value ::
    "env \<Rightarrow> json \<Rightarrow> string \<Rightarrow> pytype \<Rightarrow> int option \<Rightarrow> pyval option res" where
  "get_value E data' key ty precision =
     (case py_get data' key of
        Raise e \<Rightarrow> Raise e
      | Return data_raw \<Rightarrow>
          if data_raw = JNull then Return None
          else (case coerce E ty precision data_raw of
                  Raise e \<Rightarrow> Raise e
                | Return v \<Rightarrow> Return (Some v)))"

text \<open>The loop of \<^verbatim>\<open>_collect_inverter_data\<close> over the table; what was stored before an
  exception stays stored.\<close>

fun collect_attributes ::
    "env \<Rightarrow> json \<Rightarrow> (string \<times> string \<times> pytype \<times> int option) list
      \<Rightarrow> (string \<times> pyval) list \<Rightarrow> unit res \<times> (string \<times> pyval) list" where
  "collect_attributes E jsondata [] d = (Return (), d)"
| "collect_attributes E jsondata ((dictkey, key, ty, precision) # rest) d =
     (case get_value E jsondata key ty precision of
        Raise e \<Rightarrow> (Raise e, d)
      | Return None \<Rightarrow> collect_attributes E jsondata rest d
      | Return (Some v) \<Rightarrow> collect_attributes E jsondata rest (AList.update dictkey v d))"

definition collect_inverter_data :: "env \<Rightarrow> json \<Rightarrow> api \<Rightarrow> unit res \<times> api" where
  "collect_inverter_data E payload s =
     (case py_getitem payload ''data'' of
        Raise e \<Rightarrow> (Raise e, s)
      | Return jsondata \<Rightarrow>
          (case collect_attributes E jsondata INVERTER_DATA_DETAIL (data s) of
             (r, d) \<Rightarrow> (r, s\<lparr>data := d\<rparr>)))"

text \<open>\<^verbatim>\<open>_purge_if_unused\<close>: the first loop returns at a missing element or at one that
  differs from \<open>value\<close>; the second pops every element.\<close>

fun all_unused :: "pyval \<Rightarrow> string list \<Rightarrow> (string \<times> pyval) list \<Rightarrow> bool" where
  "all_unused value [] d = True"
| "all_unused value (element # rest) d =
     (case map_of d element of
        None \<Rightarrow> False
      | Some v \<Rightarrow> if \<not> py_eq v value then False else all_unused value rest d)"

fun pop_all ::
    "string list \<Rightarrow> (string \<times> pyval) list \<Rightarrow> unit res \<times> (string \<times> pyval) list" where
  "pop_all [] d = (Return (), d)"
| "pop_all (element # rest) d =
     (case map_of d element of
        None \<Rightarrow> (Raise KeyError, d)
      | Some v \<Rightarrow> pop_all rest (AList.delete element d))"

definition purge_if_unused :: "pyval \<Rightarrow> string list \<Rightarrow> api \<Rightarrow> unit res \<times> api" where
  "purge_if_unused value elements s =
     (if all_unused value elements (data s)
      then (case pop_all elements (data s) of (r, d) \<Rightarrow> (r, s\<lparr>data := d\<rparr>))
      else (Return (), s))"

definition and_then :: "unit res \<times> api \<Rightarrow> (api \<Rightarrow> unit res \<times> api) \<Rightarrow> unit res \<times> api" where
  "and_then m f = (case m of (Raise e, s) \<Rightarrow> (Raise e, s) | (Return u, s) \<Rightarrow> f s)"

definition post_process :: "env \<Rightarrow> api \<Rightarrow> unit res \<times> api" where
  "post_process E s =
     (if data s \<noteq> [] then
        (case map_of (data s) INVERTER_TIMESTAMP_UPDATE of
           None \<Rightarrow> (Raise KeyError, s)
         | Some v \<Rightarrow>
             (case float_of_val E v of
                Raise e \<Rightarrow> (Raise e, s)
              | Return f \<Rightarrow>
                  (case py_truediv f (Fin 1000) of
                     Raise e \<Rightarrow> (Raise e, s)
                   | Return t \<Rightarrow>
                       and_then
                         (and_then
                            (purge_if_unused (VFloat (Fin 0)) [PHASE1_CURRENT, PHASE1_VOLTAGE]
                               (s\<lparr>data := AList.update INVERTER_TIMESTAMP_UPDATE (VFloat t) (data s)\<rparr>))
                            (purge_if_unused (VFloat (Fin 0)) [PHASE2_CURRENT, PHASE2_VOLTAGE]))
                         (purge_if_unused (VFloat (Fin 0)) [PHASE3_CURRENT, PHASE3_VOLTAGE]))))
      else (Return (), s))"

text \<open>\<^verbatim>\<open>_get_inverter_details\<close> returns the parsed body, or \<^verbatim>\<open>None\<close> after a failure
  result.\<close>

definition get_inverter_details :: "env \<Rightarrow> json \<Rightarrow> string \<Rightarrow> api \<Rightarrow> json res \<times> api" where
  "get_inverter_details E device_id device_serial s0 =
     (case post_data_json E INVERTER_DETAIL
             (JObj [(''id'', device_id), (''sn'', JStr device_serial)]) s0 of
        (Raise e, s) \<Rightarrow> (Raise e, s)
      | (Return result, s) \<Rightarrow>
          if success result then
            (case result_content result of
               Raise e \<Rightarrow> (Raise e, s)
             | Return jsondata \<Rightarrow> (Return jsondata, s))
          else (Return JNull, s))"

text \<open>\<^verbatim>\<open>fetch_inverter_data\<close> returns the normalized record (the dict that
  \<^verbatim>\<open>GinlongData\<close> wraps) or \<^verbatim>\<open>None\<close>.\<close>

definition fetch_inverter_data ::
    "env \<Rightarrow> string \<Rightarrow> api \<Rightarrow> (string \<times> pyval) list option res \<times> api" where
  "fetch_inverter_data E inverter_serial s0 =
     (let s = s0\<lparr>data := []\<rparr>
      in if is_online s then
           (case inverter_list s of
              None \<Rightarrow> (Return None, s)
            | Some directory \<Rightarrow>
                (case dict_find directory (JStr inverter_serial) of
                   None \<Rightarrow> (Return None, s)
                 | Some device_id \<Rightarrow>
                     (case get_inverter_details E device_id inverter_serial s of
                        (Raise e, s1) \<Rightarrow> (Raise e, s1)
                      | (Return payload, s1) \<Rightarrow>
                          if payload \<noteq> JNull then
                            (case collect_inverter_data E payload s1 of
                               (Raise e, s2) \<Rightarrow> (Raise e, s2)
                             | (Return u, s2) \<Rightarrow>
                                 (case post_process E s2 of
                                    (Raise e, s3) \<Rightarrow> (Raise e, s3)
                                  | (Return u', s3) \<Rightarrow> (Return (Some (data s3)), s3)))
                          else (Return None, s1))))
         else (Return None, s))"

section \<open>A test environment\<close>

text \<open>
  Concrete values for the examples below. The session is scripted: its k-th POST gets the
  k-th outcome of the script, and it raises once the script is used up. The digest
  functions and the parsers are stand-ins (a digest is the first bytes of its input), and
  the serializer writes a flat object without quotes, with the separators it is given;
  the clock shows 14 November 2023, 22:13:20 GMT and advances a second per reading.
\<close>

fun is_post :: "event \<Rightarrow> bool" where
  "is_post (Posted h req) = True"
| "is_post e = False"

definition scripted :: "post_outcome list \<Rightarrow> event list \<Rightarrow> nat \<Rightarrow> request \<Rightarrow> post_outcome" where
  "scripted script evs h req =
     (let k = length (filter is_post evs)
      in if k < length script then script ! k else PostRaises (OtherError ''RuntimeError''))"

definition demo_clock :: "nat \<Rightarrow> datetime" where
  "demo_clock n =
     \<lparr>dt_weekday = Tue, dt_day = 14, dt_month = Nov, dt_year = 2023,
      dt_hour = 22, dt_minute = 13, dt_second = 20 + n\<rparr>"

fun join :: "string \<Rightarrow> string list \<Rightarrow> string" where
  "join sep [] = []"
| "join sep [x] = x"
| "join sep (x # y # ys) = x @ sep @ join sep (y # ys)"

fun demo_atom :: "json \<Rightarrow> string" where
  "demo_atom (JStr s) = s"
| "demo_atom (JInt n) = str_int n"
| "demo_atom j = ''null''"

fun demo_dumps :: "string \<times> string \<Rightarrow> json \<Rightarrow> string" where
  "demo_dumps seps (JObj kvs) =
     ''{'' @ join (fst seps) (map (\<lambda>kv. fst kv @ snd seps @ demo_atom (snd kv)) kvs) @ ''}''"
| "demo_dumps seps j = demo_atom j"

definition demo_env :: "post_outcome list \<Rightarrow> env" where
  "demo_env script =
     \<lparr>md5 = (\<lambda>b. take 16 b), hmac_sha1 = (\<lambda>k m. take 20 (k @ m)),
      json_dumps = demo_dumps, py_repr = (\<lambda>j. ''?''),
      int_of_str = (\<lambda>s. None), float_of_str = (\<lambda>s. None),
      clock = demo_clock, session_post = scripted script\<rparr>"

definition demo_config :: config where
  "demo_config =
     \<lparr>portal_domain = ''www.soliscloud.com:13333'', portal_username = ''user'',
      portal_plantid = ''42'', portal_key_id = ''key'', portal_secret = ''secret''\<rparr>"

text \<open>The client as \<^verbatim>\<open>__init__\<close> leaves it, and a client that is logged in with one
  inverter in its directory.\<close>

definition demo_api :: api where
  "demo_api =
     \<lparr>config = demo_config, session = None, user_id = JNull, data = [],
      inverter_list = None, events = [], clock_reads = 0\<rparr>"

definition demo_online :: api where
  "demo_online =
     demo_api\<lparr>session := Some 7, user_id := JInt 1001,
       inverter_list := Some [(JStr ''S1'', JStr ''D1'')]\<rparr>"

definition login_ok :: post_outcome where
  "login_ok = Response 200 (JsonBody (JObj [(''data'', JObj [(''userId'', JInt 1001)])]))"

definition list_ok :: post_outcome where
  "list_ok = Response 200 (JsonBody (JObj [(''data'', JObj [(''records'',
       JArr [JObj [(''sn'', JStr ''S1''), (''id'', JStr ''D1'')]])])]))"

definition server_error :: post_outcome where
  "server_error = Response 500 (JsonBody (JObj [(''msg'', JStr ''error'')]))"

text \<open>Other answers of the session: a response whose body cannot be read as JSON, a POST
  that times out, an inverter list without records and one with gaps and a repeated
  serial.\<close>

definition bad_body :: post_outcome where
  "bad_body = Response 500 (JsonRaises (OtherError ''JSONDecodeError''))"

definition timed_out :: post_outcome where
  "timed_out = PostRaises (TimeoutError [])"

definition list_no_records :: post_outcome where
  "list_no_records = Response 200 (JsonBody (JObj [(''data'', JObj [(''page'', JInt 1)])]))"

definition list_gaps :: post_outcome where
  "list_gaps = Response 200 (JsonBody (JObj [(''data'', JObj [(''records'',
       JArr [JObj [(''sn'', JStr ''S1''), (''id'', JStr ''D1'')],
             JObj [(''id'', JStr ''D9'')],
             JObj [(''sn'', JStr ''S2'')],
             JObj [(''sn'', JStr ''S1''), (''id'', JStr ''D3'')]])])]))"

text \<open>Detail payloads: one with an unused second phase, one whose first phase reads
  \<open>1/1024\<close> volt and ampere (a value a double holds exactly), one without
  \<^verbatim>\<open>dataTimestamp\<close>.\<close>

definition detail_phase2_unused :: post_outcome where
  "detail_phase2_unused = Response 200 (JsonBody (JObj [(''data'', JObj
     [(''sn'', JStr ''S1''),
      (''dataTimestamp'', JInt 1700000000000),
      (''uAc1'', JFloat (Fin (461 / 2))), (''uAc2'', JFloat (Fin 0)), (''uAc3'', JFloat (Fin 231)),
      (''iAc1'', JFloat (Fin (3 / 2))), (''iAc2'', JFloat (Fin 0)), (''iAc3'', JFloat (Fin (9 / 4)))])]))"

definition detail_phase1_tiny :: post_outcome where
  "detail_phase1_tiny = Response 200 (JsonBody (JObj [(''data'', JObj
     [(''sn'', JStr ''S1''),
      (''dataTimestamp'', JInt 1700000000000),
      (''uAc1'', JFloat (Fin (1 / 1024))), (''uAc2'', JFloat (Fin 0)), (''uAc3'', JFloat (Fin 231)),
      (''iAc1'', JFloat (Fin (1 / 1024))), (''iAc2'', JFloat (Fin 0)), (''iAc3'', JFloat (Fin (9 / 4)))])]))"

definition detail_no_timestamp :: post_outcome where
  "detail_no_timestamp = Response 200 (JsonBody (JObj [(''data'', JObj
     [(''sn'', JStr ''S1''),
      (''uAc1'', JFloat (Fin (461 / 2))), (''iAc1'', JFloat (Fin (3 / 2)))])]))"

section \<open>Vocabulary of the properties\<close>

text \<open>The exception classes the handler of the signed POST names.\<close>

fun transport_error :: "py_exn \<Rightarrow> bool" where
  "transport_error (TimeoutError m) = True"
| "transport_error (ClientError m) = True"
| "transport_error e = False"

text \<open>
  The inverter directory as the specification words it: a record's \<^verbatim>\<open>sn\<close> maps to its
  \<^verbatim>\<open>id\<close>, a missing field counts as \<^verbatim>\<open>None\<close>, and of several records with one
  serial the last decides.
\<close>

fun is_object :: "json \<Rightarrow> bool" where
  "is_object (JObj kvs) = True"
| "is_object j = False"

definition field_or_none :: "json \<Rightarrow> string \<Rightarrow> json" where
  "field_or_none r k =
     (case r of JObj kvs \<Rightarrow> (case map_of kvs k of None \<Rightarrow> JNull | Some v \<Rightarrow> v) | _ \<Rightarrow> JNull)"

definition serial_to_id :: "json list \<Rightarrow> json \<Rightarrow> json option" where
  "serial_to_id rs k =
     (case filter (\<lambda>r. key_eq (field_or_none r ''sn'') k) rs of
        [] \<Rightarrow> None
      | x # xs \<Rightarrow> Some (field_or_none (last (x # xs)) ''id''))"

text \<open>
  The purge of a phase as the specification words it: when current and voltage are both
  present and both equal \<open>0.0\<close>, both are gone afterwards; otherwise both are as before.
\<close>

definition both_equal ::
    "pyval \<Rightarrow> string \<Rightarrow> string \<Rightarrow> (string \<times> pyval) list \<Rightarrow> bool" where
  "both_equal v c w d =
     (case (map_of d c, map_of d w) of
        (Some x, Some y) \<Rightarrow> py_eq x v \<and> py_eq y v
      | _ \<Rightarrow> False)"

definition phase_rule ::
    "string \<Rightarrow> string \<Rightarrow> (string \<times> pyval) list \<Rightarrow> (string \<times> pyval) list \<Rightarrow> bool" where
  "phase_rule c w d d' =
     (if both_equal (VFloat (Fin 0)) c w d
      then map_of d' c = None \<and> map_of d' w = None
      else map_of d' c = map_of d c \<and> map_of d' w = map_of d w)"

text \<open>What one call of the purge on a pair of fields leaves of the record.\<close>

definition purged :: "string \<Rightarrow> string \<Rightarrow> (string \<times> pyval) list \<Rightarrow> (string \<times> pyval) list" where
  "purged c w d =
     (if both_equal (VFloat (Fin 0)) c w d then AList.delete w (AList.delete c d) else d)"

section \<open>Evaluation and frame lemmas\<close>

lemmas demo_defs = demo_env_def demo_api_def demo_online_def demo_config_def demo_clock_def
  scripted_def login_ok_def list_ok_def server_error_def

lemmas run_defs = login_def login_try_def fetch_inverter_list_def post_data_json_def
  prepare_header_def result_content_def records_of_def dict_setitem_def key_eq_def
  is_online_def Let_def

lemma post_data_json_frame:
  assumes "post_data_json E r p s = (out, s')"
  shows "config s' = config s \<and> session s' = session s \<and> user_id s' = user_id s
    \<and> data s' = data s \<and> inverter_list s' = inverter_list s
    \<and> clock_reads s' = Suc (clock_reads s)
    \<and> (\<exists>evs. events s' = events s @ evs)"
  using assms
  by (auto simp: post_data_json_def prepare_header_def Let_def
      split: option.splits post_outcome.splits json_outcome.splits if_splits)

lemma fetch_inverter_list_frame:
  assumes "fetch_inverter_list E p s = (out, s')"
  shows "config s' = config s \<and> session s' = session s
    \<and> data s' = data s \<and> inverter_list s' = inverter_list s"
  using assms
  by (auto simp: fetch_inverter_list_def split: prod.splits res.splits if_splits
      dest!: post_data_json_frame)

lemma login_try_frame:
  assumes "login_try E j s = (out, s')"
  shows "config s' = config s \<and> session s' = session s"
  using assms
  by (auto simp: login_try_def split: prod.splits res.splits if_splits
      dest!: fetch_inverter_list_frame)

lemma login_session:
  assumes "login E sess s = (out, s')"
  shows "session s' = Some sess \<and> config s' = config s"
  using assms
  by (auto simp: login_def Let_def split: prod.splits res.splits if_splits py_exn.splits
      dest!: login_try_frame post_data_json_frame)

lemma key_eq_JStr: "key_eq k (JStr x) \<longleftrightarrow> k = JStr x"
  by (cases k) (auto simp: key_eq_def)

lemma dict_find_None_iff: "dict_find d (JStr x) = None \<longleftrightarrow> JStr x \<notin> fst ` set d"
  by (induction d) (auto simp: key_eq_JStr split: if_splits)

lemma get_inverter_details_frame:
  assumes "get_inverter_details E device_id serial s = (out, s')"
  shows "data s' = data s"
  using assms
  by (auto simp: get_inverter_details_def split: prod.splits res.splits if_splits
      dest!: post_data_json_frame)

lemma on_exception_transport:
  "on_exception e r = (if transport_error e then Return (r\<lparr>message := Some (case e of TimeoutError m \<Rightarrow> m | ClientError m \<Rightarrow> m | _ \<Rightarrow> [])\<rparr>) else Raise e)"
  by (cases e) auto

subsection \<open>Evaluating floats\<close>

lemma floor_rat_divide_numeral:
  "\<lfloor>numeral a / numeral b :: rat\<rfloor> = numeral a div numeral b"
  by (metis floor_divide_of_int_eq of_int_numeral)

lemma floor_rat_one_divide_numeral:
  "\<lfloor>1 / numeral b :: rat\<rfloor> = 1 div numeral b"
  by (metis floor_divide_of_int_eq of_int_1 of_int_numeral)

lemma ceiling_rat_divide_numeral:
  "\<lceil>numeral a / numeral b :: rat\<rceil> = - (- numeral a div numeral b)"
  using ceiling_divide_eq_div [of "numeral a" "numeral b", where ?'a = rat] by simp

lemmas float_eval = binary64_def ilog2_def pow2_def pow10_def rne_def bit_len.simps Let_def
  float_of_int_def floor_rat_divide_numeral floor_rat_one_divide_numeral
  ceiling_rat_divide_numeral float_eq_def

subsection \<open>The inverter directory as a dict\<close>

lemma float_eq_sym: "float_eq a b \<Longrightarrow> float_eq b a"
  by (auto simp: float_eq_def)

lemma float_eq_trans: "float_eq a b \<Longrightarrow> float_eq b c \<Longrightarrow> float_eq a c"
  by (auto simp: float_eq_def)

lemma key_eq_sym: "key_eq a b \<Longrightarrow> key_eq b a"
  by (cases "num_of a"; cases "num_of b") (auto simp: key_eq_def float_eq_def)

lemma key_eq_trans: "key_eq a b \<Longrightarrow> key_eq b c \<Longrightarrow> key_eq a c"
  by (cases "num_of a"; cases "num_of b"; cases "num_of c") (auto simp: key_eq_def float_eq_def)

lemma dict_find_upd:
  "dict_find (dict_upd d k v) k' = (if key_eq k k' then Some v else dict_find d k')"
proof (induction d)
  case Nil
  show ?case by simp
next
  case (Cons a d)
  obtain k0 v0 where a: "a = (k0, v0)" by (cases a)
  show ?case
  proof (cases "key_eq k0 k")
    case True
    then have "key_eq k0 k' \<longleftrightarrow> key_eq k k'"
      using key_eq_sym key_eq_trans by blast
    with True a show ?thesis by simp
  next
    case False
    then have "\<not> (key_eq k k' \<and> key_eq k0 k')"
      using key_eq_sym key_eq_trans by blast
    with False a Cons show ?thesis by auto
  qed
qed

lemma py_get_object: "is_object r \<Longrightarrow> py_get r k = Return (field_or_none r k)"
  by (cases r) (auto simp: field_or_none_def)

lemma collect_records_find:
  assumes "\<forall>r \<in> set rs. is_object r \<and> hashable (field_or_none r ''sn'')"
  shows "\<exists>m. collect_records rs d = Return m
    \<and> (\<forall>k. dict_find m k =
          (case filter (\<lambda>r. key_eq (field_or_none r ''sn'') k) rs of
             [] \<Rightarrow> dict_find d k
           | x # xs \<Rightarrow> Some (field_or_none (last (x # xs)) ''id'')))"
  using assms
proof (induction rs arbitrary: d)
  case Nil
  show ?case by simp
next
  case (Cons r rs)
  let ?d = "dict_upd d (field_or_none r ''sn'') (field_or_none r ''id'')"
  from Cons.prems have r: "is_object r" "hashable (field_or_none r ''sn'')"
    and rs: "\<forall>r \<in> set rs. is_object r \<and> hashable (field_or_none r ''sn'')"
    by simp_all
  from Cons.IH [OF rs, of ?d] obtain m where
    m: "collect_records rs ?d = Return m"
    and f: "\<And>k. dict_find m k =
          (case filter (\<lambda>r. key_eq (field_or_none r ''sn'') k) rs of
             [] \<Rightarrow> dict_find ?d k
           | x # xs \<Rightarrow> Some (field_or_none (last (x # xs)) ''id''))"
    by blast
  have c: "collect_records (r # rs) d = Return m"
    using r m by (simp add: py_get_object dict_setitem_def)
  have "dict_find m k =
          (case filter (\<lambda>r. key_eq (field_or_none r ''sn'') k) (r # rs) of
             [] \<Rightarrow> dict_find d k
           | x # xs \<Rightarrow> Some (field_or_none (last (x # xs)) ''id''))" for k
    unfolding f [of k] by (simp add: dict_find_upd split: list.splits)
  with c show ?case by blast
qed

subsection \<open>The loop over the field table\<close>

lemma table_distinct: "distinct (map fst INVERTER_DATA_DETAIL)"
  by (simp add: INVERTER_DATA_DETAIL_def)

lemma table_timestamp:
  "map_of INVERTER_DATA_DETAIL INVERTER_TIMESTAMP_UPDATE = Some (''dataTimestamp'', TInt, None)"
  by (simp add: INVERTER_DATA_DETAIL_def)

lemma table_phases:
  "map_of INVERTER_DATA_DETAIL PHASE1_VOLTAGE = Some (''uAc1'', TFloat, Some 2)"
  "map_of INVERTER_DATA_DETAIL PHASE2_VOLTAGE = Some (''uAc2'', TFloat, Some 2)"
  "map_of INVERTER_DATA_DETAIL PHASE3_VOLTAGE = Some (''uAc3'', TFloat, Some 2)"
  "map_of INVERTER_DATA_DETAIL PHASE1_CURRENT = Some (''iAc1'', TFloat, Some 2)"
  "map_of INVERTER_DATA_DETAIL PHASE2_CURRENT = Some (''iAc2'', TFloat, Some 2)"
  "map_of INVERTER_DATA_DETAIL PHASE3_CURRENT = Some (''iAc3'', TFloat, Some 2)"
  by (simp_all add: INVERTER_DATA_DETAIL_def)

lemma collect_attributes_lookup:
  assumes "collect_attributes E jd attrs d = (Return (), d')"
    and "distinct (map fst attrs)"
  shows "map_of d' f =
     (case map_of attrs f of
        None \<Rightarrow> map_of d f
      | Some (key, ty, prec) \<Rightarrow>
          (case get_value E jd key ty prec of
             Return (Some v) \<Rightarrow> Some v
           | _ \<Rightarrow> map_of d f))"
  using assms
proof (induction attrs arbitrary: d)
  case Nil
  then show ?case by simp
next
  case (Cons a attrs)
  obtain dictkey key ty prec where a: "a = (dictkey, key, ty, prec)"
    by (cases a)
  from Cons.prems(2) a have nin: "dictkey \<notin> fst ` set attrs" and dis: "distinct (map fst attrs)"
    by auto
  from nin have m: "map_of attrs dictkey = None"
    by (simp add: map_of_eq_None_iff)
  show ?case
  proof (cases "get_value E jd key ty prec")
    case (Raise e)
    with Cons.prems(1) a show ?thesis by simp
  next
    case (Return r)
    show ?thesis
    proof (cases r)
      case None
      with Return Cons.prems(1) a have "collect_attributes E jd attrs d = (Return (), d')"
        by simp
      from Cons.IH [OF this dis] a Return None m show ?thesis
        by (auto split: option.splits)
    next
      case (Some v)
      with Return Cons.prems(1) a
      have "collect_attributes E jd attrs (AList.update dictkey v d) = (Return (), d')"
        by simp
      from Cons.IH [OF this dis] a Return Some m show ?thesis
        by (auto simp: update_conv' split: option.splits res.splits)
    qed
  qed
qed

lemma get_value_zero:
  "py_get jd key = Return (JFloat (Fin 0))
    \<Longrightarrow> get_value E jd key TFloat (Some 2) = Return (Some (VFloat (Fin 0)))"
  by (simp add: get_value_def float_eval)

subsection \<open>Post-processing\<close>

lemma purge_pair:
  assumes "c \<noteq> w"
  shows "purge_if_unused v [c, w] s =
     (Return (), if both_equal v c w (data s)
                 then s\<lparr>data := AList.delete w (AList.delete c (data s))\<rparr> else s)"
  using assms
  by (auto simp: purge_if_unused_def both_equal_def delete_conv' split: option.splits)

lemma map_of_purged:
  "c \<noteq> w \<Longrightarrow> map_of (purged c w d) k =
     (if both_equal (VFloat (Fin 0)) c w d \<and> (k = c \<or> k = w) then None else map_of d k)"
  by (simp add: purged_def delete_conv')

lemma both_equal_cong:
  "map_of d c = map_of d' c \<Longrightarrow> map_of d w = map_of d' w
    \<Longrightarrow> both_equal v c w d = both_equal v c w d'"
  by (simp add: both_equal_def)

lemma purge_pair_purged:
  assumes "c \<noteq> w"
  shows "purge_if_unused (VFloat (Fin 0)) [c, w] s = (Return (), s\<lparr>data := purged c w (data s)\<rparr>)"
  using assms by (simp add: purge_pair purged_def)

lemma and_then_Return: "and_then (Return u, s) f = f s"
  by (simp add: and_then_def)

lemma post_process_empty:
  "data s = [] \<Longrightarrow> post_process E s = (Return (), s)"
  by (simp add: post_process_def)

lemma post_process_nonempty:
  assumes "post_process E s = (Return (), s')" and "data s \<noteq> []"
  shows "\<exists>v f t. map_of (data s) INVERTER_TIMESTAMP_UPDATE = Some v
     \<and> float_of_val E v = Return f \<and> py_truediv f (Fin 1000) = Return t
     \<and> s' = s\<lparr>data :=
          purged PHASE3_CURRENT PHASE3_VOLTAGE
            (purged PHASE2_CURRENT PHASE2_VOLTAGE
              (purged PHASE1_CURRENT PHASE1_VOLTAGE
                (AList.update INVERTER_TIMESTAMP_UPDATE (VFloat t) (data s))))\<rparr>"
proof -
  from assms obtain v where v: "map_of (data s) INVERTER_TIMESTAMP_UPDATE = Some v"
    by (cases "map_of (data s) INVERTER_TIMESTAMP_UPDATE") (auto simp: post_process_def)
  from assms v obtain f where f: "float_of_val E v = Return f"
    by (cases "float_of_val E v") (auto simp: post_process_def)
  from assms v f obtain t where t: "py_truediv f (Fin 1000) = Return t"
    by (cases "py_truediv f (Fin 1000)") (auto simp: post_process_def)
  have "post_process E s = (Return (), s\<lparr>data :=
          purged PHASE3_CURRENT PHASE3_VOLTAGE
            (purged PHASE2_CURRENT PHASE2_VOLTAGE
              (purged PHASE1_CURRENT PHASE1_VOLTAGE
                (AList.update INVERTER_TIMESTAMP_UPDATE (VFloat t) (data s))))\<rparr>)"
    using assms(2) v f t
    by (simp add: post_process_def purge_pair_purged and_then_Return)
  with assms(1) v f t show ?thesis by simp
qed

lemma post_process_phase_rules:
  assumes "post_process E s = (Return (), s')"
  shows "phase_rule PHASE1_CURRENT PHASE1_VOLTAGE (data s) (data s')
     \<and> phase_rule PHASE2_CURRENT PHASE2_VOLTAGE (data s) (data s')
     \<and> phase_rule PHASE3_CURRENT PHASE3_VOLTAGE (data s) (data s')"
proof (cases "data s = []")
  case True
  with assms post_process_empty [OF True, of E] have "s' = s" by simp
  with True show ?thesis by (simp add: phase_rule_def both_equal_def)
next
  case False
  from post_process_nonempty [OF assms False] obtain t where
    s': "s' = s\<lparr>data :=
          purged PHASE3_CURRENT PHASE3_VOLTAGE
            (purged PHASE2_CURRENT PHASE2_VOLTAGE
              (purged PHASE1_CURRENT PHASE1_VOLTAGE
                (AList.update INVERTER_TIMESTAMP_UPDATE (VFloat t) (data s))))\<rparr>"
    by blast
  let ?d0 = "AList.update INVERTER_TIMESTAMP_UPDATE (VFloat t) (data s)"
  let ?d1 = "purged PHASE1_CURRENT PHASE1_VOLTAGE ?d0"
  let ?d2 = "purged PHASE2_CURRENT PHASE2_VOLTAGE ?d1"
  have b1: "both_equal v PHASE1_CURRENT PHASE1_VOLTAGE ?d0
      = both_equal v PHASE1_CURRENT PHASE1_VOLTAGE (data s)" for v
    by (rule both_equal_cong) (simp_all add: update_conv')
  have b2: "both_equal v PHASE2_CURRENT PHASE2_VOLTAGE ?d1
      = both_equal v PHASE2_CURRENT PHASE2_VOLTAGE (data s)" for v
    by (rule both_equal_cong) (simp_all add: update_conv' map_of_purged)
  have b3: "both_equal v PHASE3_CURRENT PHASE3_VOLTAGE ?d2
      = both_equal v PHASE3_CURRENT PHASE3_VOLTAGE (data s)" for v
    by (rule both_equal_cong) (simp_all add: update_conv' map_of_purged)
  show ?thesis
    unfolding s' by (simp add: phase_rule_def map_of_purged b1 b2 b3 update_conv')
qed

lemma post_process_timestamp:
  assumes "post_process E s = (Return (), s')" and "data s \<noteq> []"
  shows "\<exists>v f t. map_of (data s) INVERTER_TIMESTAMP_UPDATE = Some v
     \<and> float_of_val E v = Return f \<and> py_truediv f (Fin 1000) = Return t
     \<and> map_of (data s') INVERTER_TIMESTAMP_UPDATE = Some (VFloat t)"
  using post_process_nonempty [OF assms]
  by (auto simp: map_of_purged update_conv')

lemma fetch_inverter_data_Some:
  assumes "fetch_inverter_data E serial s = (Return (Some rec), s')"
  shows "\<exists>dir device_id payload s1 jd d2.
     inverter_list s = Some dir \<and> dict_find dir (JStr serial) = Some device_id
     \<and> get_inverter_details E device_id serial (s\<lparr>data := []\<rparr>) = (Return payload, s1)
     \<and> py_getitem payload ''data'' = Return jd
     \<and> collect_attributes E jd INVERTER_DATA_DETAIL [] = (Return (), d2)
     \<and> post_process E (s1\<lparr>data := d2\<rparr>) = (Return (), s')
     \<and> rec = data s'"
proof -
  from assms obtain dir where dir: "inverter_list s = Some dir"
    by (cases "inverter_list s") (auto simp: fetch_inverter_data_def Let_def split: if_splits)
  from assms dir obtain device_id where dev: "dict_find dir (JStr serial) = Some device_id"
    by (cases "dict_find dir (JStr serial)")
      (auto simp: fetch_inverter_data_def Let_def split: if_splits)
  obtain o1 s1 where g: "get_inverter_details E device_id serial (s\<lparr>data := []\<rparr>) = (o1, s1)"
    by (cases "get_inverter_details E device_id serial (s\<lparr>data := []\<rparr>)")
  from get_inverter_details_frame [OF g] have d1: "data s1 = []" by simp
  from assms dir dev g obtain payload where o1: "o1 = Return payload"
    by (cases o1) (auto simp: fetch_inverter_data_def Let_def split: if_splits)
  from assms dir dev g o1 have ne: "payload \<noteq> JNull"
    by (auto simp: fetch_inverter_data_def Let_def split: if_splits)
  obtain o2 s2 where c: "collect_inverter_data E payload s1 = (o2, s2)"
    by (cases "collect_inverter_data E payload s1")
  from assms dir dev g o1 ne c have o2: "o2 = Return ()"
    by (cases o2) (auto simp: fetch_inverter_data_def Let_def split: if_splits)
  from c o2 obtain jd where jd: "py_getitem payload ''data'' = Return jd"
    by (cases "py_getitem payload ''data''") (auto simp: collect_inverter_data_def)
  from c o2 jd d1 have ca: "collect_attributes E jd INVERTER_DATA_DETAIL [] = (Return (), data s2)"
    and s2: "s2 = s1\<lparr>data := data s2\<rparr>"
    by (auto simp: collect_inverter_data_def split: prod.splits)
  obtain o3 s3 where p: "post_process E s2 = (o3, s3)"
    by (cases "post_process E s2")
  from assms dir dev g o1 ne c o2 p have "o3 = Return ()" "s3 = s'" "rec = data s'"
    by (cases o3; auto simp: fetch_inverter_data_def Let_def split: if_splits)+
  with p s2 have "post_process E (s1\<lparr>data := data s2\<rparr>) = (Return (), s')"
    by simp
  with dir dev g o1 jd ca \<open>rec = data s'\<close> show ?thesis by blast
qed

subsection \<open>Runs of the detail fetch\<close>

lemmas detail_defs = fetch_inverter_data_def get_inverter_details_def collect_inverter_data_def
  post_process_def purge_if_unused_def and_then_def get_value_def INVERTER_DATA_DETAIL_def
  INVERTER_DETAIL_def

lemma run_phase2_unused:
  "fst (fetch_inverter_data (demo_env [detail_phase2_unused]) ''S1'' demo_online)
   = Return (Some
      [(''INVERTER_SERIAL'', VStr ''S1''),
       (INVERTER_TIMESTAMP_UPDATE, VFloat (Fin 1700000000)),
       (PHASE1_VOLTAGE, VFloat (Fin (461 / 2))),
       (PHASE3_VOLTAGE, VFloat (Fin 231)),
       (PHASE1_CURRENT, VFloat (Fin (3 / 2))),
       (PHASE3_CURRENT, VFloat (Fin (9 / 4)))])"
  by (simp add: demo_defs run_defs detail_defs detail_phase2_unused_def float_eval)

lemma run_phase1_tiny:
  "fst (fetch_inverter_data (demo_env [detail_phase1_tiny]) ''S1'' demo_online)
   = Return (Some
      [(''INVERTER_SERIAL'', VStr ''S1''),
       (INVERTER_TIMESTAMP_UPDATE, VFloat (Fin 1700000000)),
       (PHASE3_VOLTAGE, VFloat (Fin 231)),
       (PHASE3_CURRENT, VFloat (Fin (9 / 4)))])"
  by (simp add: demo_defs run_defs detail_defs detail_phase1_tiny_def float_eval)

lemma run_no_timestamp:
  "fst (fetch_inverter_data (demo_env [detail_no_timestamp]) ''S1'' demo_online) = Raise KeyError
   \<and> data (snd (fetch_inverter_data (demo_env [detail_no_timestamp]) ''S1'' demo_online))
      = [(''INVERTER_SERIAL'', VStr ''S1''),
         (PHASE1_VOLTAGE, VFloat (Fin (461 / 2))),
         (PHASE1_CURRENT, VFloat (Fin (3 / 2)))]"
  by (simp add: demo_defs run_defs detail_defs detail_no_timestamp_def float_eval)

lemma run_details:
  "\<exists>s1. get_inverter_details (demo_env [detail_phase2_unused]) (JStr ''D1'') ''S1''
       (demo_online\<lparr>data := []\<rparr>)
     = (Return (JObj [(''data'', JObj
         [(''sn'', JStr ''S1''),
          (''dataTimestamp'', JInt 1700000000000),
          (''uAc1'', JFloat (Fin (461 / 2))), (''uAc2'', JFloat (Fin 0)),
          (''uAc3'', JFloat (Fin 231)),
          (''iAc1'', JFloat (Fin (3 / 2))), (''iAc2'', JFloat (Fin 0)),
          (''iAc3'', JFloat (Fin (9 / 4)))])]), s1)"
  by (simp add: demo_defs run_defs detail_defs detail_phase2_unused_def)

section \<open>Request signing and the body that is sent\<close>

text \<open>
  Claim C1. For every configuration, JSON body and resource path the header set is:
  \<^verbatim>\<open>Content-MD5\<close>, the base64 text of the MD5 digest of the body serialized with the
  separators \<^verbatim>\<open>","\<close> and \<^verbatim>\<open>":"\<close>; \<^verbatim>\<open>Content-Type\<close>, \<^verbatim>\<open>application/json\<close>;
  \<^verbatim>\<open>Date\<close>, the clock's time in the form \<^verbatim>\<open>Tue, 14 Nov 2023 22:13:20 GMT\<close>; and
  \<^verbatim>\<open>Authorization\<close>, \<^verbatim>\<open>API\<close>, a blank, the key id, a colon and the base64 text of the
  HMAC-SHA1 under the secret of \<^verbatim>\<open>POST\<close>, the content MD5, the content type, the date and
  the resource path, separated by newlines. With a session, the signed POST sends exactly
  one request: its body is the same serialization the digest was taken of and its headers
  are that header set. Without a session it sends nothing.
\<close>

theorem signed_post_header_and_body:
  "prepare_header E body res s =
     ([(''Content-MD5'', b64encode (md5 E (json_dumps E ('','', '':'') body))),
       (''Content-Type'', ''application/json''),
       (''Date'', strftime_gmt (clock E (clock_reads s))),
       (''Authorization'',
          ''API '' @ portal_key_id (config s) @ '':''
          @ b64encode (hmac_sha1 E (portal_secret (config s))
              (''POST'' @ [CHR 0x0A] @ b64encode (md5 E (json_dumps E ('','', '':'') body))
               @ [CHR 0x0A] @ ''application/json''
               @ [CHR 0x0A] @ strftime_gmt (clock E (clock_reads s))
               @ [CHR 0x0A] @ res)))],
      s\<lparr>clock_reads := Suc (clock_reads s)\<rparr>)
   \<and> strftime_gmt t =
       day_abbr (dt_weekday t) @ '', '' @ pad2 (dt_day t) @ '' '' @ month_abbr (dt_month t)
       @ '' '' @ str_nat (dt_year t) @ '' '' @ pad2 (dt_hour t) @ '':'' @ pad2 (dt_minute t)
       @ '':'' @ pad2 (dt_second t) @ '' GMT''
   \<and> (case session s of
         None \<Rightarrow> events (snd (post_data_json E res body s)) = events s
       | Some h \<Rightarrow>
           (\<exists>rest. events (snd (post_data_json E res body s))
               = events s
                 @ Posted h \<lparr>req_url = ''https://'' @ portal_domain (config s) @ res,
                             req_data = json_dumps E ('','', '':'') body,
                             req_headers = fst (prepare_header E body res s)\<rparr> # rest
             \<and> (rest = [] \<or> rest = [Released])))"
  by (auto simp: prepare_header_def post_data_json_def Let_def VERB_def strftime_gmt_def
      split: option.splits post_outcome.splits json_outcome.splits)

theorem signed_post_header_and_body_witness:
  "prepare_header (demo_env []) (JObj [(''stationId'', JStr ''42'')]) ''/v1/api/inveterList'' demo_online =
     ([(''Content-MD5'', ''e3N0YXRpb25JZDo0Mn0=''),
       (''Content-Type'', ''application/json''),
       (''Date'', ''Tue, 14 Nov 2023 22:13:20 GMT''),
       (''Authorization'', ''API key:c2VjcmV0UE9TVAplM04wWVhScGI='')],
      demo_online\<lparr>clock_reads := 1\<rparr>)
   \<and> events (snd (post_data_json (demo_env [list_ok]) ''/v1/api/inveterList''
         (JObj [(''stationId'', JStr ''42'')]) demo_online))
       = [Posted 7 \<lparr>req_url = ''https://www.soliscloud.com:13333/v1/api/inveterList'',
                    req_data = ''{stationId:42}'',
                    req_headers =
                      [(''Content-MD5'', ''e3N0YXRpb25JZDo0Mn0=''),
                       (''Content-Type'', ''application/json''),
                       (''Date'', ''Tue, 14 Nov 2023 22:13:20 GMT''),
                       (''Authorization'', ''API key:c2VjcmV0UE9TVAplM04wWVhScGI='')]\<rparr>,
          Released]"
proof -
  let ?b = "JObj [(''stationId'', JStr ''42'')]"
  have d: "strftime_gmt (clock (demo_env []) (clock_reads demo_online))
      = ''Tue, 14 Nov 2023 22:13:20 GMT''"
    by (simp add: demo_defs strftime_gmt_def pad2_def str_nat.simps)
  have m: "b64encode (md5 (demo_env []) (json_dumps (demo_env []) ('','', '':'') ?b)) = ''e3N0YXRpb25JZDo0Mn0=''"
    by (simp add: demo_defs b64encode_def b64_char_def)
  have h: "prepare_header (demo_env []) ?b ''/v1/api/inveterList'' demo_online =
     ([(''Content-MD5'', ''e3N0YXRpb25JZDo0Mn0=''),
       (''Content-Type'', ''application/json''),
       (''Date'', ''Tue, 14 Nov 2023 22:13:20 GMT''),
       (''Authorization'', ''API key:c2VjcmV0UE9TVAplM04wWVhScGI='')],
      demo_online\<lparr>clock_reads := 1\<rparr>)"
    using signed_post_header_and_body [of "demo_env []" ?b "''/v1/api/inveterList''" demo_online]
    unfolding d m
    by (simp add: demo_defs b64encode_def b64_char_def)
  have e: "events (snd (post_data_json (demo_env [list_ok]) ''/v1/api/inveterList'' ?b demo_online))
       = [Posted 7 \<lparr>req_url = ''https://www.soliscloud.com:13333/v1/api/inveterList'',
                    req_data = ''{stationId:42}'',
                    req_headers =
                      [(''Content-MD5'', ''e3N0YXRpb25JZDo0Mn0=''),
                       (''Content-Type'', ''application/json''),
                       (''Date'', ''Tue, 14 Nov 2023 22:13:20 GMT''),
                       (''Authorization'', ''API key:c2VjcmV0UE9TVAplM04wWVhScGI='')]\<rparr>,
          Released]"
    by (simp add: demo_defs run_defs strftime_gmt_def pad2_def str_nat.simps VERB_def
        b64encode_def b64_char_def)
  from h e show ?thesis by simp
qed

section \<open>A detail payload without a timestamp\<close>

text \<open>
  Claim C2. The claim says that a detail fetch whose HTTP call succeeded returns normally,
  also when \<^verbatim>\<open>dataTimestamp\<close> is among the missing vendor keys. The code does not: for
  the answer \<^verbatim>\<open>{"data": {"sn": "S1", "uAc1": 230.5, "iAc1": 1.5}}\<close> with status 200 the
  fields present are collected, and \<^verbatim>\<open>_post_process\<close> then reads
  \<^verbatim>\<open>self._data[INVERTER_TIMESTAMP_UPDATE]\<close>, which raises \<^verbatim>\<open>KeyError\<close>; nothing catches
  it, so \<^verbatim>\<open>fetch_inverter_data\<close> raises.
\<close>

theorem fetch_without_timestamp_raises:
  "fst (fetch_inverter_data (demo_env [detail_no_timestamp]) ''S1'' demo_online) = Raise KeyError
   \<and> data (snd (fetch_inverter_data (demo_env [detail_no_timestamp]) ''S1'' demo_online))
      = [(''INVERTER_SERIAL'', VStr ''S1''),
         (PHASE1_VOLTAGE, VFloat (Fin (461 / 2))),
         (PHASE1_CURRENT, VFloat (Fin (3 / 2)))]"
  by (rule run_no_timestamp)

text \<open>
  What does hold of every fetch that returns a record: a field of the table whose vendor
  key is missing from the payload's \<^verbatim>\<open>data\<close> object, or is \<^verbatim>\<open>null\<close> there, is not in the
  record.
\<close>

theorem missing_or_null_fields_omitted:
  assumes "fetch_inverter_data E serial s = (Return (Some rec), s')"
    and "inverter_list s = Some dir" and "dict_find dir (JStr serial) = Some device_id"
    and "get_inverter_details E device_id serial (s\<lparr>data := []\<rparr>) = (Return payload, s1)"
    and "py_getitem payload ''data'' = Return jd"
    and "(f, key, ty, prec) \<in> set INVERTER_DATA_DETAIL"
    and "py_get jd key = Return JNull"
  shows "map_of rec f = None"
proof -
  from fetch_inverter_data_Some [OF assms(1)] assms(2-5) obtain d2 where
    ca: "collect_attributes E jd INVERTER_DATA_DETAIL [] = (Return (), d2)"
    and pp: "post_process E (s1\<lparr>data := d2\<rparr>) = (Return (), s')"
    and rec: "rec = data s'"
    by auto
  have t: "map_of INVERTER_DATA_DETAIL f = Some (key, ty, prec)"
    using assms(6) table_distinct by (rule_tac map_of_is_SomeI) simp_all
  have gv: "get_value E jd key ty prec = Return None"
    using assms(7) by (simp add: get_value_def)
  from collect_attributes_lookup [OF ca table_distinct, of f] t gv
  have n: "map_of d2 f = None"
    by simp
  show ?thesis
  proof (cases "d2 = []")
    case True
    with pp post_process_empty [of "s1\<lparr>data := d2\<rparr>" E] rec show ?thesis by simp
  next
    case False
    then have ne: "data (s1\<lparr>data := d2\<rparr>) \<noteq> []" by simp
    from post_process_nonempty [OF pp ne] n rec show ?thesis
      by (auto simp: map_of_purged update_conv')
  qed
qed

theorem missing_or_null_fields_omitted_witness:
  "(''INVERTER_DEVICE_ID'', ''id'', TStr, None) \<in> set INVERTER_DATA_DETAIL
   \<and> fst (fetch_inverter_data (demo_env [detail_phase2_unused]) ''S1'' demo_online)
      = Return (Some
         [(''INVERTER_SERIAL'', VStr ''S1''),
          (INVERTER_TIMESTAMP_UPDATE, VFloat (Fin 1700000000)),
          (PHASE1_VOLTAGE, VFloat (Fin (461 / 2))),
          (PHASE3_VOLTAGE, VFloat (Fin 231)),
          (PHASE1_CURRENT, VFloat (Fin (3 / 2))),
          (PHASE3_CURRENT, VFloat (Fin (9 / 4)))])
   \<and> map_of
         [(''INVERTER_SERIAL'', VStr ''S1''),
          (INVERTER_TIMESTAMP_UPDATE, VFloat (Fin 1700000000)),
          (PHASE1_VOLTAGE, VFloat (Fin (461 / 2))),
          (PHASE3_VOLTAGE, VFloat (Fin 231)),
          (PHASE1_CURRENT, VFloat (Fin (3 / 2))),
          (PHASE3_CURRENT, VFloat (Fin (9 / 4)))] ''INVERTER_DEVICE_ID'' = None"
proof -
  let ?E = "demo_env [detail_phase2_unused]"
  let ?rec = "[(''INVERTER_SERIAL'', VStr ''S1''),
       (INVERTER_TIMESTAMP_UPDATE, VFloat (Fin 1700000000)),
       (PHASE1_VOLTAGE, VFloat (Fin (461 / 2))),
       (PHASE3_VOLTAGE, VFloat (Fin 231)),
       (PHASE1_CURRENT, VFloat (Fin (3 / 2))),
       (PHASE3_CURRENT, VFloat (Fin (9 / 4)))]"
  let ?jd = "JObj
         [(''sn'', JStr ''S1''),
          (''dataTimestamp'', JInt 1700000000000),
          (''uAc1'', JFloat (Fin (461 / 2))), (''uAc2'', JFloat (Fin 0)),
          (''uAc3'', JFloat (Fin 231)),
          (''iAc1'', JFloat (Fin (3 / 2))), (''iAc2'', JFloat (Fin 0)),
          (''iAc3'', JFloat (Fin (9 / 4)))]"
  have f: "fetch_inverter_data ?E ''S1'' demo_online
      = (Return (Some ?rec), snd (fetch_inverter_data ?E ''S1'' demo_online))"
    using run_phase2_unused by (simp add: prod_eq_iff)
  have l: "inverter_list demo_online = Some [(JStr ''S1'', JStr ''D1'')]"
    "dict_find [(JStr ''S1'', JStr ''D1'')] (JStr ''S1'') = Some (JStr ''D1'')"
    by (simp_all add: demo_defs key_eq_def)
  from run_details obtain s1 where
    g: "get_inverter_details ?E (JStr ''D1'') ''S1'' (demo_online\<lparr>data := []\<rparr>)
       = (Return (JObj [(''data'', ?jd)]), s1)"
    by blast
  have p: "py_getitem (JObj [(''data'', ?jd)]) ''data'' = Return ?jd"
    by simp
  have t: "(''INVERTER_DEVICE_ID'', ''id'', TStr, None) \<in> set INVERTER_DATA_DETAIL"
    by (simp add: INVERTER_DATA_DETAIL_def)
  have n: "py_get ?jd ''id'' = Return JNull"
    by simp
  from missing_or_null_fields_omitted [OF f l g p t n] run_phase2_unused t
  show ?thesis by blast
qed

section \<open>Rounding to the declared precision\<close>

text \<open>
  The double nearest to \<open>12.3456\<close>, read from a vendor key of type \<^verbatim>\<open>float\<close> with
  precision 2, is stored as the double nearest to \<open>12.35\<close>.
\<close>

theorem round_to_declared_precision:
  "binary64 (123456 / 10000) = Fin (6949954944958149 / 562949953421312)
   \<and> get_value E (JObj [(''pac'', JFloat (Fin (6949954944958149 / 562949953421312)))])
        ''pac'' TFloat (Some 2)
      = Return (Some (VFloat (Fin (6952431924753203 / 562949953421312))))
   \<and> binary64 (1235 / 100) = Fin (6952431924753203 / 562949953421312)"
  by (simp add: get_value_def float_eval)

section \<open>The purge of unused phases\<close>

text \<open>
  Claim C3, as stated, fails at a payload whose second phase reads \<open>0.0\<close> and whose other
  phases are not zero: with \<open>uAc1\<close> and \<open>iAc1\<close> both \<open>1/1024\<close>, which is not zero, the
  values are rounded to two decimals before the purge, both become \<open>0.0\<close>, and the
  record omits the first phase as well.
\<close>

theorem phase_purge_tiny_values_counterexample:
  "\<not> float_eq (Fin (1 / 1024)) (Fin 0)
   \<and> fst (fetch_inverter_data (demo_env [detail_phase1_tiny]) ''S1'' demo_online)
      = Return (Some
         [(''INVERTER_SERIAL'', VStr ''S1''),
          (INVERTER_TIMESTAMP_UPDATE, VFloat (Fin 1700000000)),
          (PHASE3_VOLTAGE, VFloat (Fin 231)),
          (PHASE3_CURRENT, VFloat (Fin (9 / 4)))])"
  using run_phase1_tiny by (simp add: float_eq_def)

text \<open>
  Claim C3, amended. Whenever post-processing returns normally, each of the three phases
  follows the rule on its own: when its current and its voltage are both in the record
  and both equal \<open>0.0\<close>, both are removed; when either is missing or differs from
  \<open>0.0\<close>, both are left as they were. And whenever a detail fetch returns a record for a
  payload with \<^verbatim>\<open>uAc2 = 0.0\<close> and \<^verbatim>\<open>iAc2 = 0.0\<close> in which the first and the third phase
  each have a voltage or a current that is not zero after the rounding to two decimals,
  the record omits the voltage and the current of phase 2 and holds those of phases 1
  and 3.
\<close>

theorem phase_purge_after_rounding:
  "(\<forall>s'. post_process E s = (Return (), s') \<longrightarrow>
       phase_rule PHASE1_CURRENT PHASE1_VOLTAGE (data s) (data s')
     \<and> phase_rule PHASE2_CURRENT PHASE2_VOLTAGE (data s) (data s')
     \<and> phase_rule PHASE3_CURRENT PHASE3_VOLTAGE (data s) (data s'))
   \<and> (\<forall>rec s' dir device_id payload s1 jd u1 i1 u3 i3.
        fetch_inverter_data E serial s = (Return (Some rec), s')
        \<and> inverter_list s = Some dir \<and> dict_find dir (JStr serial) = Some device_id
        \<and> get_inverter_details E device_id serial (s\<lparr>data := []\<rparr>) = (Return payload, s1)
        \<and> py_getitem payload ''data'' = Return jd
        \<and> py_get jd ''uAc2'' = Return (JFloat (Fin 0))
        \<and> py_get jd ''iAc2'' = Return (JFloat (Fin 0))
        \<and> get_value E jd ''uAc1'' TFloat (Some 2) = Return (Some u1)
        \<and> get_value E jd ''iAc1'' TFloat (Some 2) = Return (Some i1)
        \<and> \<not> (py_eq u1 (VFloat (Fin 0)) \<and> py_eq i1 (VFloat (Fin 0)))
        \<and> get_value E jd ''uAc3'' TFloat (Some 2) = Return (Some u3)
        \<and> get_value E jd ''iAc3'' TFloat (Some 2) = Return (Some i3)
        \<and> \<not> (py_eq u3 (VFloat (Fin 0)) \<and> py_eq i3 (VFloat (Fin 0)))
       \<longrightarrow> map_of rec PHASE2_VOLTAGE = None \<and> map_of rec PHASE2_CURRENT = None
           \<and> map_of rec PHASE1_VOLTAGE = Some u1 \<and> map_of rec PHASE1_CURRENT = Some i1
           \<and> map_of rec PHASE3_VOLTAGE = Some u3 \<and> map_of rec PHASE3_CURRENT = Some i3)"
proof -
  have b: "map_of rec PHASE2_VOLTAGE = None \<and> map_of rec PHASE2_CURRENT = None
           \<and> map_of rec PHASE1_VOLTAGE = Some u1 \<and> map_of rec PHASE1_CURRENT = Some i1
           \<and> map_of rec PHASE3_VOLTAGE = Some u3 \<and> map_of rec PHASE3_CURRENT = Some i3"
    if f: "fetch_inverter_data E serial s = (Return (Some rec), s')"
      and l: "inverter_list s = Some dir" "dict_find dir (JStr serial) = Some device_id"
        "get_inverter_details E device_id serial (s\<lparr>data := []\<rparr>) = (Return payload, s1)"
        "py_getitem payload ''data'' = Return jd"
      and z: "py_get jd ''uAc2'' = Return (JFloat (Fin 0))"
        "py_get jd ''iAc2'' = Return (JFloat (Fin 0))"
      and p1: "get_value E jd ''uAc1'' TFloat (Some 2) = Return (Some u1)"
        "get_value E jd ''iAc1'' TFloat (Some 2) = Return (Some i1)"
        "\<not> (py_eq u1 (VFloat (Fin 0)) \<and> py_eq i1 (VFloat (Fin 0)))"
      and p3: "get_value E jd ''uAc3'' TFloat (Some 2) = Return (Some u3)"
        "get_value E jd ''iAc3'' TFloat (Some 2) = Return (Some i3)"
        "\<not> (py_eq u3 (VFloat (Fin 0)) \<and> py_eq i3 (VFloat (Fin 0)))"
    for rec s' dir device_id payload s1 jd u1 i1 u3 i3
  proof -
    from fetch_inverter_data_Some [OF f] l obtain d2 where
      ca: "collect_attributes E jd INVERTER_DATA_DETAIL [] = (Return (), d2)"
      and pp: "post_process E (s1\<lparr>data := d2\<rparr>) = (Return (), s')"
      and rec: "rec = data s'"
      by auto
    note look = collect_attributes_lookup [OF ca table_distinct]
    have d2: "map_of d2 PHASE2_VOLTAGE = Some (VFloat (Fin 0))"
      "map_of d2 PHASE2_CURRENT = Some (VFloat (Fin 0))"
      "map_of d2 PHASE1_VOLTAGE = Some u1" "map_of d2 PHASE1_CURRENT = Some i1"
      "map_of d2 PHASE3_VOLTAGE = Some u3" "map_of d2 PHASE3_CURRENT = Some i3"
      using look [of PHASE2_VOLTAGE] look [of PHASE2_CURRENT] look [of PHASE1_VOLTAGE]
        look [of PHASE1_CURRENT] look [of PHASE3_VOLTAGE] look [of PHASE3_CURRENT]
        get_value_zero [OF z(1), of E] get_value_zero [OF z(2), of E] p1 p3
      by (simp_all add: table_phases)
    from post_process_phase_rules [OF pp] d2 p1(3) p3(3) rec show ?thesis
      by (auto simp: phase_rule_def both_equal_def float_eq_def split: if_splits)
  qed
  show ?thesis
    using post_process_phase_rules [of E s] b by blast
qed

theorem phase_purge_after_rounding_witness:
  "fst (fetch_inverter_data (demo_env [detail_phase2_unused]) ''S1'' demo_online)
   = Return (Some
      [(''INVERTER_SERIAL'', VStr ''S1''),
       (INVERTER_TIMESTAMP_UPDATE, VFloat (Fin 1700000000)),
       (PHASE1_VOLTAGE, VFloat (Fin (461 / 2))),
       (PHASE3_VOLTAGE, VFloat (Fin 231)),
       (PHASE1_CURRENT, VFloat (Fin (3 / 2))),
       (PHASE3_CURRENT, VFloat (Fin (9 / 4)))])
   \<and> map_of
      [(''INVERTER_SERIAL'', VStr ''S1''),
       (INVERTER_TIMESTAMP_UPDATE, VFloat (Fin 1700000000)),
       (PHASE1_VOLTAGE, VFloat (Fin (461 / 2))),
       (PHASE3_VOLTAGE, VFloat (Fin 231)),
       (PHASE1_CURRENT, VFloat (Fin (3 / 2))),
       (PHASE3_CURRENT, VFloat (Fin (9 / 4)))] PHASE2_VOLTAGE = None"
proof -
  let ?E = "demo_env [detail_phase2_unused]"
  let ?rec = "[(''INVERTER_SERIAL'', VStr ''S1''),
       (INVERTER_TIMESTAMP_UPDATE, VFloat (Fin 1700000000)),
       (PHASE1_VOLTAGE, VFloat (Fin (461 / 2))),
       (PHASE3_VOLTAGE, VFloat (Fin 231)),
       (PHASE1_CURRENT, VFloat (Fin (3 / 2))),
       (PHASE3_CURRENT, VFloat (Fin (9 / 4)))]"
  let ?jd = "JObj
         [(''sn'', JStr ''S1''),
          (''dataTimestamp'', JInt 1700000000000),
          (''uAc1'', JFloat (Fin (461 / 2))), (''uAc2'', JFloat (Fin 0)),
          (''uAc3'', JFloat (Fin 231)),
          (''iAc1'', JFloat (Fin (3 / 2))), (''iAc2'', JFloat (Fin 0)),
          (''iAc3'', JFloat (Fin (9 / 4)))]"
  have f: "fetch_inverter_data ?E ''S1'' demo_online
      = (Return (Some ?rec), snd (fetch_inverter_data ?E ''S1'' demo_online))"
    using run_phase2_unused by (simp add: prod_eq_iff)
  have l: "inverter_list demo_online = Some [(JStr ''S1'', JStr ''D1'')]"
    "dict_find [(JStr ''S1'', JStr ''D1'')] (JStr ''S1'') = Some (JStr ''D1'')"
    by (simp_all add: demo_defs key_eq_def)
  from run_details obtain s1 where
    g: "get_inverter_details ?E (JStr ''D1'') ''S1'' (demo_online\<lparr>data := []\<rparr>)
       = (Return (JObj [(''data'', ?jd)]), s1)"
    by blast
  have p: "py_getitem (JObj [(''data'', ?jd)]) ''data'' = Return ?jd"
    "py_get ?jd ''uAc2'' = Return (JFloat (Fin 0))"
    "py_get ?jd ''iAc2'' = Return (JFloat (Fin 0))"
    by simp_all
  have v: "get_value ?E ?jd ''uAc1'' TFloat (Some 2) = Return (Some (VFloat (Fin (461 / 2))))"
    "get_value ?E ?jd ''iAc1'' TFloat (Some 2) = Return (Some (VFloat (Fin (3 / 2))))"
    "get_value ?E ?jd ''uAc3'' TFloat (Some 2) = Return (Some (VFloat (Fin 231)))"
    "get_value ?E ?jd ''iAc3'' TFloat (Some 2) = Return (Some (VFloat (Fin (9 / 4))))"
    by (simp_all add: get_value_def float_eval)
  have n: "\<not> (py_eq (VFloat (Fin (461 / 2))) (VFloat (Fin 0))
        \<and> py_eq (VFloat (Fin (3 / 2))) (VFloat (Fin 0)))"
    "\<not> (py_eq (VFloat (Fin 231)) (VFloat (Fin 0))
        \<and> py_eq (VFloat (Fin (9 / 4))) (VFloat (Fin 0)))"
    by (simp_all add: float_eq_def)
  have "map_of ?rec PHASE2_VOLTAGE = None"
    using phase_purge_after_rounding [of ?E demo_online "''S1''"] f l g p v n by blast
  with run_phase2_unused show ?thesis by blast
qed

section \<open>A failed list fetch\<close>

text \<open>
  Claim C4. Whenever the POST of \<^verbatim>\<open>fetch_inverter_list\<close> gives a failure result, the
  function returns \<^verbatim>\<open>None\<close> and the user id is cleared. This also holds inside
  \<^verbatim>\<open>login\<close>: when the first POST succeeded and its answer held a user id, and the POST
  for the list then gives a failure result, \<^verbatim>\<open>login\<close> returns false with the user id
  and the inverter list both \<^verbatim>\<open>None\<close>.
\<close>

theorem failed_list_fetch_clears_user_id:
  "(\<forall>r s'. post_data_json E ''/v1/api/inveterList'' (JObj [(''stationId'', JStr plant_id)]) s
         = (Return r, s') \<and> \<not> success r
       \<longrightarrow> fetch_inverter_list E plant_id s = (Return None, s'\<lparr>user_id := JNull\<rparr>))
   \<and> (\<forall>r1 s1 j d uid r2 s2.
        post_data_json E ''/v1/api/addUser''
           (JObj [(''userName'', JStr (portal_username (config s))), (''userType'', JInt 0)])
           (s\<lparr>session := Some sess, inverter_list := None\<rparr>) = (Return r1, s1)
        \<and> success r1 \<and> content r1 = Some j
        \<and> py_getitem j ''data'' = Return d \<and> py_getitem d ''userId'' = Return uid
        \<and> post_data_json E ''/v1/api/inveterList''
             (JObj [(''stationId'', JStr (portal_plantid (config s1)))]) (s1\<lparr>user_id := uid\<rparr>)
           = (Return r2, s2)
        \<and> \<not> success r2
       \<longrightarrow> login E sess s = (Return False, s2\<lparr>user_id := JNull, inverter_list := None\<rparr>))"
  by (auto simp: fetch_inverter_list_def login_def login_try_def Let_def result_content_def
      is_online_def)

theorem failed_list_fetch_clears_user_id_witness:
  "fst (login (demo_env [login_ok, server_error]) 7 demo_api) = Return False
   \<and> user_id (snd (login (demo_env [login_ok, server_error]) 7 demo_api)) = JNull
   \<and> inverter_list (snd (login (demo_env [login_ok, server_error]) 7 demo_api)) = None"
proof -
  let ?E = "demo_env [login_ok, server_error]"
  let ?p1 = "post_data_json ?E ''/v1/api/addUser''
           (JObj [(''userName'', JStr (portal_username (config demo_api))), (''userType'', JInt 0)])
           (demo_api\<lparr>session := Some 7, inverter_list := None\<rparr>)"
  obtain r1 s1 where p1: "?p1 = (Return r1, s1)" and r1: "success r1"
      "content r1 = Some (JObj [(''data'', JObj [(''userId'', JInt 1001)])])"
      and s1: "config s1 = demo_config" "length (filter is_post (events s1)) = 1" "session s1 = Some 7"
    by (simp add: demo_defs run_defs)
  let ?p2 = "post_data_json ?E ''/v1/api/inveterList''
             (JObj [(''stationId'', JStr (portal_plantid (config s1)))]) (s1\<lparr>user_id := JInt 1001\<rparr>)"
  obtain r2 s2 where p2: "?p2 = (Return r2, s2)" and r2: "\<not> success r2"
    using s1 by (simp add: demo_defs run_defs)
  have "login ?E 7 demo_api = (Return False, s2\<lparr>user_id := JNull, inverter_list := None\<rparr>)"
    using failed_list_fetch_clears_user_id [of ?E "''42''" demo_api 7] p1 r1 p2 r2 by simp
  then show ?thesis by simp
qed

section \<open>Detail fetch without a login or for an unknown serial\<close>

text \<open>
  Claim C5. When the client is not logged in (the user id is \<^verbatim>\<open>None\<close>), when the
  inverter directory is \<^verbatim>\<open>None\<close>, or when the serial is not a key of the directory,
  \<^verbatim>\<open>fetch_inverter_data\<close> returns \<^verbatim>\<open>None\<close>; the state is the one before with the record
  emptied, so nothing was posted and the list of events is unchanged.
\<close>

theorem fetch_inverter_data_offline_or_unknown:
  assumes "user_id s = JNull \<or> inverter_list s = None
     \<or> (\<exists>d. inverter_list s = Some d \<and> JStr inverter_serial \<notin> fst ` set d)"
  shows "fetch_inverter_data E inverter_serial s = (Return None, s\<lparr>data := []\<rparr>)
     \<and> events (snd (fetch_inverter_data E inverter_serial s)) = events s"
  using assms
  by (auto simp: fetch_inverter_data_def Let_def is_online_def dict_find_None_iff[symmetric]
      split: option.splits)

theorem fetch_inverter_data_offline_or_unknown_witness:
  "inverter_list demo_online = Some [(JStr ''S1'', JStr ''D1'')]
   \<and> JStr ''S2'' \<notin> fst ` set [(JStr ''S1'', JStr ''D1'')]
   \<and> user_id demo_online \<noteq> JNull
   \<and> fetch_inverter_data (demo_env [list_ok]) ''S2'' demo_online
        = (Return None, demo_online\<lparr>data := []\<rparr>)
   \<and> events (snd (fetch_inverter_data (demo_env [list_ok]) ''S2'' demo_online)) = []"
proof -
  have d: "inverter_list demo_online = Some [(JStr ''S1'', JStr ''D1'')]"
    by (simp add: demo_defs)
  have k: "JStr ''S2'' \<notin> fst ` set [(JStr ''S1'', JStr ''D1'')]"
    by simp
  have u: "user_id demo_online \<noteq> JNull" "events demo_online = []"
    by (simp_all add: demo_defs)
  from d k have "user_id demo_online = JNull \<or> inverter_list demo_online = None
     \<or> (\<exists>d. inverter_list demo_online = Some d \<and> JStr ''S2'' \<notin> fst ` set d)"
    by blast
  from fetch_inverter_data_offline_or_unknown [OF this, of "demo_env [list_ok]"] d k u
  show ?thesis by simp
qed

section \<open>Failures of the signed POST\<close>

text \<open>
  Claim C6, as stated, fails: the handler of the signed POST names two exception classes,
  and reading the body is inside the \<^verbatim>\<open>try\<close>. For a response with status 500 whose body
  cannot be decoded (\<^verbatim>\<open>resp.json()\<close> raises a \<^verbatim>\<open>JSONDecodeError\<close>, which is not a
  \<^verbatim>\<open>ClientError\<close>), the exception goes on to the caller.
\<close>

theorem post_data_json_other_error_counterexample:
  "bad_body = Response 500 (JsonRaises (OtherError ''JSONDecodeError''))
   \<and> fst (post_data_json (demo_env [bad_body]) ''/v1/api/inveterList''
        (JObj [(''stationId'', JStr ''42'')]) demo_online) = Raise (OtherError ''JSONDecodeError'')"
  by (simp add: demo_defs run_defs bad_body_def)

text \<open>
  Claim C6, amended. Without a session handle the helper returns the failure result at
  once and posts nothing. With one: a response of a status other than 200 whose body was
  read gives a failure result with the status code, the body and the message
  \<^verbatim>\<open>Got http statuscode: \<close> followed by the code; a timeout or a \<^verbatim>\<open>ClientError\<close> raised
  while the body is read gives a failure result with the status code and the error's text;
  a timeout or a \<^verbatim>\<open>ClientError\<close> raised by the POST gives a failure result with the error's
  text and no status code. An exception of any other class, raised by the POST or while
  the body is read, propagates to the caller.
\<close>

theorem post_data_json_failures:
  "(session s = None \<longrightarrow>
      post_data_json E res params s
        = (Return \<lparr>success = False, message = None, status_code = None, content = None\<rparr>,
           s\<lparr>clock_reads := Suc (clock_reads s)\<rparr>))
   \<and> (\<forall>h req. session s = Some h
        \<and> req = \<lparr>req_url = ''https://'' @ portal_domain (config s) @ res,
                  req_data = json_dumps E ('','', '':'') params,
                  req_headers = fst (prepare_header E params res s)\<rparr> \<longrightarrow>
        (\<forall>status j. session_post E (events s) h req = Response status (JsonBody j)
            \<and> status \<noteq> 200 \<longrightarrow>
            fst (post_data_json E res params s)
              = Return \<lparr>success = False,
                        message = Some (''Got http statuscode: '' @ str_int status),
                        status_code = Some status, content = Some j\<rparr>)
        \<and> (\<forall>status e. session_post E (events s) h req = Response status (JsonRaises e) \<longrightarrow>
            (\<forall>m. e = TimeoutError m \<or> e = ClientError m \<longrightarrow>
               fst (post_data_json E res params s)
                 = Return \<lparr>success = False, message = Some m,
                           status_code = Some status, content = None\<rparr>)
            \<and> (\<not> transport_error e \<longrightarrow> fst (post_data_json E res params s) = Raise e))
        \<and> (\<forall>e. session_post E (events s) h req = PostRaises e \<longrightarrow>
            (\<forall>m. e = TimeoutError m \<or> e = ClientError m \<longrightarrow>
               fst (post_data_json E res params s)
                 = Return \<lparr>success = False, message = Some m,
                           status_code = None, content = None\<rparr>)
            \<and> (\<not> transport_error e \<longrightarrow> fst (post_data_json E res params s) = Raise e)))"
  by (auto simp: post_data_json_def prepare_header_def Let_def on_exception_transport)

theorem post_data_json_failures_witness:
  "session demo_api = None
   \<and> post_data_json (demo_env [server_error]) ''/v1/api/addUser'' (JObj []) demo_api
        = (Return \<lparr>success = False, message = None, status_code = None, content = None\<rparr>,
           demo_api\<lparr>clock_reads := 1\<rparr>)
   \<and> session demo_online = Some 7
   \<and> fst (post_data_json (demo_env [server_error]) ''/v1/api/addUser'' (JObj []) demo_online)
        = Return \<lparr>success = False, message = Some ''Got http statuscode: 500'',
                  status_code = Some 500, content = Some (JObj [(''msg'', JStr ''error'')])\<rparr>
   \<and> fst (post_data_json (demo_env [timed_out]) ''/v1/api/addUser'' (JObj []) demo_online)
        = Return \<lparr>success = False, message = Some [], status_code = None, content = None\<rparr>"
proof -
  let ?E = "demo_env [server_error]"
  let ?T = "demo_env [timed_out]"
  let ?req = "\<lambda>E. \<lparr>req_url = ''https://'' @ portal_domain (config demo_online) @ ''/v1/api/addUser'',
                  req_data = json_dumps E ('','', '':'') (JObj []),
                  req_headers = fst (prepare_header E (JObj []) ''/v1/api/addUser'' demo_online)\<rparr>"
  have n: "session demo_api = None" and o: "session demo_online = Some 7"
    by (simp_all add: demo_defs)
  have a: "session_post ?E (events demo_online) 7 (?req ?E)
      = Response 500 (JsonBody (JObj [(''msg'', JStr ''error'')]))"
    by (simp add: demo_defs)
  have b: "session_post ?T (events demo_online) 7 (?req ?T) = PostRaises (TimeoutError [])"
    by (simp add: demo_defs timed_out_def)
  have s: "str_int 500 = ''500''"
    by (simp add: str_int_def str_nat.simps)
  have c: "clock_reads demo_api = 0"
    by (simp add: demo_defs)
  show ?thesis
    using post_data_json_failures [of demo_api ?E "''/v1/api/addUser''" "JObj []"]
      post_data_json_failures [of demo_online ?E "''/v1/api/addUser''" "JObj []"]
      post_data_json_failures [of demo_online ?T "''/v1/api/addUser''" "JObj []"] n o a b s c
    by simp
qed

section \<open>The timestamp of the record\<close>

text \<open>
  Claim C7. Whenever a detail fetch returns a record and the payload's \<^verbatim>\<open>data\<close> object
  holds a millisecond \<^verbatim>\<open>dataTimestamp\<close> \<open>n\<close>, as a JSON integer or as a string that
  \<^verbatim>\<open>int\<close> reads as \<open>n\<close>, the record's update timestamp is the float
  \<^verbatim>\<open>float(n) / 1000\<close>. For \<open>n = 1700000000000\<close> that float is \<open>1700000000.0\<close>.
\<close>

theorem timestamp_divided_by_1000:
  assumes "fetch_inverter_data E serial s = (Return (Some rec), s')"
    and "inverter_list s = Some dir" and "dict_find dir (JStr serial) = Some device_id"
    and "get_inverter_details E device_id serial (s\<lparr>data := []\<rparr>) = (Return payload, s1)"
    and "py_getitem payload ''data'' = Return jd"
    and "py_get jd ''dataTimestamp'' = Return raw"
    and "raw = JInt n \<or> (\<exists>txt. raw = JStr txt \<and> int_of_str E txt = Some n)"
  shows "(\<exists>f t. float_of_int n = Return f \<and> py_truediv f (Fin 1000) = Return t
       \<and> map_of rec INVERTER_TIMESTAMP_UPDATE = Some (VFloat t))
     \<and> float_of_int 1700000000000 = Return (Fin 1700000000000)
     \<and> py_truediv (Fin 1700000000000) (Fin 1000) = Return (Fin 1700000000)"
proof -
  from fetch_inverter_data_Some [OF assms(1)] assms(2-5) obtain d2 where
    ca: "collect_attributes E jd INVERTER_DATA_DETAIL [] = (Return (), d2)"
    and pp: "post_process E (s1\<lparr>data := d2\<rparr>) = (Return (), s')"
    and rec: "rec = data s'"
    by auto
  have gv: "get_value E jd ''dataTimestamp'' TInt None = Return (Some (VInt n))"
    using assms(6,7) by (auto simp: get_value_def)
  from collect_attributes_lookup [OF ca table_distinct, of INVERTER_TIMESTAMP_UPDATE]
  have ts: "map_of d2 INVERTER_TIMESTAMP_UPDATE = Some (VInt n)"
    by (simp add: table_timestamp gv)
  then have ne: "data (s1\<lparr>data := d2\<rparr>) \<noteq> []"
    by auto
  from post_process_timestamp [OF pp ne] ts rec
  have "\<exists>f t. float_of_int n = Return f \<and> py_truediv f (Fin 1000) = Return t
       \<and> map_of rec INVERTER_TIMESTAMP_UPDATE = Some (VFloat t)"
    by auto
  moreover have "float_of_int 1700000000000 = Return (Fin 1700000000000)"
    by (simp add: float_eval)
  moreover have "py_truediv (Fin 1700000000000) (Fin 1000) = Return (Fin 1700000000)"
    by (simp add: float_eval)
  ultimately show ?thesis by blast
qed

theorem timestamp_divided_by_1000_witness:
  "fst (fetch_inverter_data (demo_env [detail_phase2_unused]) ''S1'' demo_online)
   = Return (Some
      [(''INVERTER_SERIAL'', VStr ''S1''),
       (INVERTER_TIMESTAMP_UPDATE, VFloat (Fin 1700000000)),
       (PHASE1_VOLTAGE, VFloat (Fin (461 / 2))),
       (PHASE3_VOLTAGE, VFloat (Fin 231)),
       (PHASE1_CURRENT, VFloat (Fin (3 / 2))),
       (PHASE3_CURRENT, VFloat (Fin (9 / 4)))])
   \<and> (\<exists>f t. float_of_int 1700000000000 = Return f \<and> py_truediv f (Fin 1000) = Return t
        \<and> t = Fin 1700000000)"
proof -
  let ?E = "demo_env [detail_phase2_unused]"
  let ?rec = "[(''INVERTER_SERIAL'', VStr ''S1''),
       (INVERTER_TIMESTAMP_UPDATE, VFloat (Fin 1700000000)),
       (PHASE1_VOLTAGE, VFloat (Fin (461 / 2))),
       (PHASE3_VOLTAGE, VFloat (Fin 231)),
       (PHASE1_CURRENT, VFloat (Fin (3 / 2))),
       (PHASE3_CURRENT, VFloat (Fin (9 / 4)))]"
  let ?jd = "JObj
         [(''sn'', JStr ''S1''),
          (''dataTimestamp'', JInt 1700000000000),
          (''uAc1'', JFloat (Fin (461 / 2))), (''uAc2'', JFloat (Fin 0)),
          (''uAc3'', JFloat (Fin 231)),
          (''iAc1'', JFloat (Fin (3 / 2))), (''iAc2'', JFloat (Fin 0)),
          (''iAc3'', JFloat (Fin (9 / 4)))]"
  have f: "fetch_inverter_data ?E ''S1'' demo_online
      = (Return (Some ?rec), snd (fetch_inverter_data ?E ''S1'' demo_online))"
    using run_phase2_unused by (simp add: prod_eq_iff)
  have l: "inverter_list demo_online = Some [(JStr ''S1'', JStr ''D1'')]"
    "dict_find [(JStr ''S1'', JStr ''D1'')] (JStr ''S1'') = Some (JStr ''D1'')"
    by (simp_all add: demo_defs key_eq_def)
  from run_details obtain s1 where
    g: "get_inverter_details ?E (JStr ''D1'') ''S1'' (demo_online\<lparr>data := []\<rparr>)
       = (Return (JObj [(''data'', ?jd)]), s1)"
    by blast
  have p: "py_getitem (JObj [(''data'', ?jd)]) ''data'' = Return ?jd"
    "py_get ?jd ''dataTimestamp'' = Return (JInt 1700000000000)"
    "JInt 1700000000000 = JInt 1700000000000
      \<or> (\<exists>txt. JInt 1700000000000 = JStr txt \<and> int_of_str ?E txt = Some 1700000000000)"
    by simp_all
  from timestamp_divided_by_1000 [OF f l g p] have
    "\<exists>f t. float_of_int 1700000000000 = Return f \<and> py_truediv f (Fin 1000) = Return t
       \<and> map_of ?rec INVERTER_TIMESTAMP_UPDATE = Some (VFloat t)"
    by blast
  then have "\<exists>f t. float_of_int 1700000000000 = Return f \<and> py_truediv f (Fin 1000) = Return t
        \<and> t = Fin 1700000000"
    by simp
  with run_phase2_unused show ?thesis by blast
qed

section \<open>Login followed by logout\<close>

text \<open>
  Claim C8. \<^verbatim>\<open>logout\<close> returns, and afterwards the user id is \<^verbatim>\<open>None\<close> (the client is
  not online), the inverter list is \<^verbatim>\<open>None\<close> and the session handle is forgotten; a
  handle that was present has been closed. After any run of \<^verbatim>\<open>login(session)\<close>, whether
  it returned true, false or raised, the handle is the one given to \<^verbatim>\<open>login\<close>, so the
  \<^verbatim>\<open>logout\<close> that follows closes that handle and clears both fields.
\<close>

theorem login_then_logout_clears:
  assumes "login E sess s = (out, s1)"
  shows "(\<exists>s'. logout s = (Return (), s') \<and> user_id s' = JNull \<and> \<not> is_online s'
        \<and> inverter_list s' = None \<and> session s' = None
        \<and> events s' = events s @ (case session s of None \<Rightarrow> [] | Some h \<Rightarrow> [Closed h]))
   \<and> (\<exists>s2. logout s1 = (Return (), s2) \<and> user_id s2 = JNull \<and> \<not> is_online s2
        \<and> inverter_list s2 = None \<and> session s2 = None
        \<and> events s2 = events s1 @ [Closed sess])"
  using login_session [OF assms]
  by (auto simp: logout_def Let_def is_online_def split: option.splits)

theorem login_then_logout_clears_witness:
  "fst (login (demo_env [login_ok, list_ok]) 7 demo_api) = Return True
   \<and> inverter_list (snd (login (demo_env [login_ok, list_ok]) 7 demo_api))
        = Some [(JStr ''S1'', JStr ''D1'')]
   \<and> user_id (snd (logout (snd (login (demo_env [login_ok, list_ok]) 7 demo_api)))) = JNull
   \<and> inverter_list (snd (logout (snd (login (demo_env [login_ok, list_ok]) 7 demo_api)))) = None
   \<and> last (events (snd (logout (snd (login (demo_env [login_ok, list_ok]) 7 demo_api)))))
        = Closed 7"
proof -
  let ?run = "login (demo_env [login_ok, list_ok]) 7 demo_api"
  have r: "fst ?run = Return True"
    by (simp add: demo_defs run_defs)
  have l: "inverter_list (snd ?run) = Some [(JStr ''S1'', JStr ''D1'')]"
    by (simp add: demo_defs run_defs)
  have "?run = (fst ?run, snd ?run)"
    by simp
  from login_then_logout_clears [OF this] obtain s2 where
    "logout (snd ?run) = (Return (), s2)" "user_id s2 = JNull" "inverter_list s2 = None"
    "events s2 = events (snd ?run) @ [Closed 7]"
    by blast
  with r l show ?thesis by simp
qed

section \<open>The inverter directory\<close>

text \<open>
  Claim C9. When the POST of \<^verbatim>\<open>fetch_inverter_list\<close> gives a success result whose
  \<^verbatim>\<open>data.records\<close> is an array of objects (with serials that can be dict keys), the
  function returns a dict that maps every record's \<^verbatim>\<open>sn\<close> to its \<^verbatim>\<open>id\<close>: looking a key
  up in it gives what the records say. A record without \<^verbatim>\<open>sn\<close> gives the key \<^verbatim>\<open>None\<close>,
  one without \<^verbatim>\<open>id\<close> the value \<^verbatim>\<open>None\<close>, and neither makes the call fail. The user id
  is left as it was.
\<close>

theorem fetch_inverter_list_builds_directory:
  assumes "post_data_json E ''/v1/api/inveterList'' (JObj [(''stationId'', JStr plant_id)]) s
      = (Return r, s')"
    and "success r" and "content r = Some j"
    and "py_getitem j ''data'' = Return d" and "py_getitem d ''records'' = Return (JArr rs)"
    and "\<forall>rec \<in> set rs. is_object rec \<and> hashable (field_or_none rec ''sn'')"
  shows "\<exists>m. fetch_inverter_list E plant_id s = (Return (Some m), s')
     \<and> (\<forall>k. dict_find m k = serial_to_id rs k)
     \<and> user_id s' = user_id s"
proof -
  from collect_records_find [OF assms(6), of "[]"] obtain m where
    m: "collect_records rs [] = Return m"
    and f: "\<And>k. dict_find m k = serial_to_id rs k"
    unfolding serial_to_id_def by (auto split: list.splits)
  have "fetch_inverter_list E plant_id s = (Return (Some m), s')"
    using assms(1-5) m
    by (simp add: fetch_inverter_list_def result_content_def records_of_def)
  moreover have "user_id s' = user_id s"
    using post_data_json_frame [OF assms(1)] by simp
  ultimately show ?thesis using f by blast
qed

theorem fetch_inverter_list_builds_directory_witness:
  "fst (fetch_inverter_list (demo_env [list_gaps]) ''42'' demo_online)
     = Return (Some [(JStr ''S1'', JStr ''D3''), (JNull, JStr ''D9''), (JStr ''S2'', JNull)])
   \<and> serial_to_id
        [JObj [(''sn'', JStr ''S1''), (''id'', JStr ''D1'')],
         JObj [(''id'', JStr ''D9'')],
         JObj [(''sn'', JStr ''S2'')],
         JObj [(''sn'', JStr ''S1''), (''id'', JStr ''D3'')]] (JStr ''S1'') = Some (JStr ''D3'')
   \<and> user_id (snd (fetch_inverter_list (demo_env [list_gaps]) ''42'' demo_online)) = JInt 1001"
proof -
  let ?E = "demo_env [list_gaps]"
  let ?rs = "[JObj [(''sn'', JStr ''S1''), (''id'', JStr ''D1'')],
         JObj [(''id'', JStr ''D9'')],
         JObj [(''sn'', JStr ''S2'')],
         JObj [(''sn'', JStr ''S1''), (''id'', JStr ''D3'')]]"
  let ?d = "JObj [(''records'', JArr ?rs)]"
  obtain r s' where p: "post_data_json ?E ''/v1/api/inveterList''
        (JObj [(''stationId'', JStr ''42'')]) demo_online = (Return r, s')"
      and r: "success r" "content r = Some (JObj [(''data'', ?d)])"
    by (simp add: demo_defs run_defs list_gaps_def)
  have g: "py_getitem (JObj [(''data'', ?d)]) ''data'' = Return ?d"
    "py_getitem ?d ''records'' = Return (JArr ?rs)"
    by simp_all
  have w: "\<forall>rec \<in> set ?rs. is_object rec \<and> hashable (field_or_none rec ''sn'')"
    by (simp add: field_or_none_def)
  from fetch_inverter_list_builds_directory [OF p r g w] obtain m where
    m: "fetch_inverter_list ?E ''42'' demo_online = (Return (Some m), s')"
    and f: "dict_find m (JStr ''S1'') = serial_to_id ?rs (JStr ''S1'')"
    and u: "user_id s' = user_id demo_online"
    by blast
  have e: "fst (fetch_inverter_list ?E ''42'' demo_online)
     = Return (Some [(JStr ''S1'', JStr ''D3''), (JNull, JStr ''D9''), (JStr ''S2'', JNull)])"
    by (simp add: demo_defs run_defs list_gaps_def)
  with m f have "serial_to_id ?rs (JStr ''S1'') = Some (JStr ''D3'')"
    by (simp add: key_eq_def)
  moreover from m u have
    "user_id (snd (fetch_inverter_list ?E ''42'' demo_online)) = JInt 1001"
    by (simp add: demo_defs)
  ultimately show ?thesis using e by blast
qed

section \<open>A list answer without the expected keys\<close>

text \<open>
  Claim C10. When the POST of \<^verbatim>\<open>fetch_inverter_list\<close> gives a success result whose JSON
  object has no \<^verbatim>\<open>data\<close> key, or whose \<^verbatim>\<open>data\<close> object has no \<^verbatim>\<open>records\<close> key,
  \<^verbatim>\<open>fetch_inverter_list\<close> raises \<^verbatim>\<open>KeyError\<close>: a direct caller sees the exception.
  Inside \<^verbatim>\<open>login\<close> the same \<^verbatim>\<open>KeyError\<close> is caught: \<^verbatim>\<open>login\<close> returns false, with
  the user id reset to \<^verbatim>\<open>None\<close> and no inverter list.
\<close>

theorem list_fetch_missing_key_raises:
  "(\<forall>r s' kvs.
        post_data_json E ''/v1/api/inveterList'' (JObj [(''stationId'', JStr plant_id)]) s
          = (Return r, s')
        \<and> success r \<and> content r = Some (JObj kvs)
        \<and> (map_of kvs ''data'' = None
            \<or> (\<exists>kvs'. map_of kvs ''data'' = Some (JObj kvs') \<and> map_of kvs' ''records'' = None))
       \<longrightarrow> fetch_inverter_list E plant_id s = (Raise KeyError, s'))
   \<and> (\<forall>r1 s1 j d uid r2 s2 kvs.
        post_data_json E ''/v1/api/addUser''
           (JObj [(''userName'', JStr (portal_username (config s))), (''userType'', JInt 0)])
           (s\<lparr>session := Some sess, inverter_list := None\<rparr>) = (Return r1, s1)
        \<and> success r1 \<and> content r1 = Some j
        \<and> py_getitem j ''data'' = Return d \<and> py_getitem d ''userId'' = Return uid
        \<and> post_data_json E ''/v1/api/inveterList''
             (JObj [(''stationId'', JStr (portal_plantid (config s1)))]) (s1\<lparr>user_id := uid\<rparr>)
           = (Return r2, s2)
        \<and> success r2 \<and> content r2 = Some (JObj kvs)
        \<and> (map_of kvs ''data'' = None
            \<or> (\<exists>kvs'. map_of kvs ''data'' = Some (JObj kvs') \<and> map_of kvs' ''records'' = None))
       \<longrightarrow> login E sess s = (Return False, s2\<lparr>user_id := JNull\<rparr>)
           \<and> inverter_list (snd (login E sess s)) = None)"
proof -
  have k: "records_of (JObj kvs) = Raise KeyError"
    if "map_of kvs ''data'' = None
       \<or> (\<exists>kvs'. map_of kvs ''data'' = Some (JObj kvs') \<and> map_of kvs' ''records'' = None)"
    for kvs
    using that by (auto simp: records_of_def)
  have a: "fetch_inverter_list E plant_id s = (Raise KeyError, s')"
    if "post_data_json E ''/v1/api/inveterList'' (JObj [(''stationId'', JStr plant_id)]) s
          = (Return r, s')"
      and "success r" and "content r = Some (JObj kvs)"
      and "map_of kvs ''data'' = None
       \<or> (\<exists>kvs'. map_of kvs ''data'' = Some (JObj kvs') \<and> map_of kvs' ''records'' = None)"
    for r s' kvs
    using that k [of kvs] by (simp add: fetch_inverter_list_def result_content_def)
  have b: "login E sess s = (Return False, s2\<lparr>user_id := JNull\<rparr>)
           \<and> inverter_list (snd (login E sess s)) = None"
    if p1: "post_data_json E ''/v1/api/addUser''
           (JObj [(''userName'', JStr (portal_username (config s))), (''userType'', JInt 0)])
           (s\<lparr>session := Some sess, inverter_list := None\<rparr>) = (Return r1, s1)"
      and r1: "success r1" "content r1 = Some j"
        "py_getitem j ''data'' = Return d" "py_getitem d ''userId'' = Return uid"
      and p2: "post_data_json E ''/v1/api/inveterList''
             (JObj [(''stationId'', JStr (portal_plantid (config s1)))]) (s1\<lparr>user_id := uid\<rparr>)
           = (Return r2, s2)"
      and r2: "success r2" "content r2 = Some (JObj kvs)"
      and m: "map_of kvs ''data'' = None
       \<or> (\<exists>kvs'. map_of kvs ''data'' = Some (JObj kvs') \<and> map_of kvs' ''records'' = None)"
    for r1 s1 j d uid r2 s2 kvs
  proof -
    from p1 p2 have i: "inverter_list s2 = None"
      by (auto dest!: post_data_json_frame)
    from p1 r1 p2 r2 k [OF m]
    have "login E sess s = (Return False, s2\<lparr>user_id := JNull\<rparr>)"
      by (simp add: login_def login_try_def fetch_inverter_list_def result_content_def
          is_online_def Let_def)
    with i show ?thesis by simp
  qed
  show ?thesis
    using a b by blast
qed

theorem list_fetch_missing_key_raises_witness:
  "fst (fetch_inverter_list (demo_env [list_no_records]) ''42'' demo_online) = Raise KeyError
   \<and> user_id (snd (fetch_inverter_list (demo_env [list_no_records]) ''42'' demo_online))
       = JInt 1001
   \<and> fst (login (demo_env [login_ok, list_no_records]) 7 demo_api) = Return False
   \<and> user_id (snd (login (demo_env [login_ok, list_no_records]) 7 demo_api)) = JNull"
proof -
  let ?F = "demo_env [list_no_records]"
  let ?E = "demo_env [login_ok, list_no_records]"
  let ?body = "[(''data'', JObj [(''page'', JInt 1)])]"
  have m: "map_of ?body ''data'' = Some (JObj [(''page'', JInt 1)])
      \<and> map_of [(''page'', JInt 1)] ''records'' = None"
    by simp
  obtain r s' where p: "post_data_json ?F ''/v1/api/inveterList''
        (JObj [(''stationId'', JStr ''42'')]) demo_online = (Return r, s')"
      and r: "success r" "content r = Some (JObj ?body)" and u: "user_id s' = JInt 1001"
    by (simp add: demo_defs run_defs list_no_records_def)
  have f: "fetch_inverter_list ?F ''42'' demo_online = (Raise KeyError, s')"
    using list_fetch_missing_key_raises [of ?F "''42''" demo_online] p r m by blast
  let ?p1 = "post_data_json ?E ''/v1/api/addUser''
           (JObj [(''userName'', JStr (portal_username (config demo_api))), (''userType'', JInt 0)])
           (demo_api\<lparr>session := Some 7, inverter_list := None\<rparr>)"
  obtain r1 s1 where p1: "?p1 = (Return r1, s1)" and r1: "success r1"
      "content r1 = Some (JObj [(''data'', JObj [(''userId'', JInt 1001)])])"
      and s1: "config s1 = demo_config" "length (filter is_post (events s1)) = 1" "session s1 = Some 7"
    by (simp add: demo_defs run_defs)
  let ?p2 = "post_data_json ?E ''/v1/api/inveterList''
             (JObj [(''stationId'', JStr (portal_plantid (config s1)))]) (s1\<lparr>user_id := JInt 1001\<rparr>)"
  obtain r2 s2 where p2: "?p2 = (Return r2, s2)" and r2: "success r2" "content r2 = Some (JObj ?body)"
    using s1 by (simp add: demo_defs run_defs list_no_records_def)
  have g: "py_getitem (JObj [(''data'', JObj [(''userId'', JInt 1001)])]) ''data''
        = Return (JObj [(''userId'', JInt 1001)])"
      "py_getitem (JObj [(''userId'', JInt 1001)]) ''userId'' = Return (JInt 1001)"
    by simp_all
  have "login ?E 7 demo_api = (Return False, s2\<lparr>user_id := JNull\<rparr>)"
    using list_fetch_missing_key_raises [of ?E _ demo_api 7] p1 r1 p2 r2 m g by blast
  with f u show ?thesis by simp
qed

end
